theory Spec2Isabelle
  imports Complex_Main "HOL-Library.Log_Nat"
begin

section \<open>The execution engine of the TestFlow platform\<close>

text \<open>
  A shallow embedding of \<^verbatim>\<open>app/tasks/execution_tasks.py\<close> and of the parts of
  \<^verbatim>\<open>app/models/execution.py\<close>, \<^verbatim>\<open>app/db/redis.py\<close> and \<^verbatim>\<open>app/db/mongodb.py\<close> it uses.

  The three stores are fields of one \<open>world\<close> record: the relational Record Store (the
  tables \<open>test_executions\<close>, \<open>test_case_results\<close>, \<open>test_cases\<close>), the Redis cache and the
  MongoDB collection \<open>execution_logs\<close>. Every coroutine of the source becomes a function that
  takes the world and returns the new one; an exception that leaves a coroutine is the \<open>Inl\<close>
  of a sum, carrying \<open>str(e)\<close>.

  What the world outside the program does during one job is an \<open>env\<close>: what the simulated
  unit of work does for the test case at each loop index, which cache operations raise, and
  whether the log store raises. Operations on the SQL session are taken to succeed, so a
  flush or commit makes the written values the stored ones.

  Timestamps are readings of a clock that advances at every \<open>datetime.utcnow()\<close>; the
  seconds between two timestamps are their difference. A Python float is the rational
  number it denotes, and every operation on floats rounds its exact result to the nearest
  double (see \<open>to_double\<close>).
  The time-to-live of cache entries is not modelled, nor is what Celery does around the
  coroutines (\<open>asyncio.run\<close>, acknowledgement, \<open>CallbackTask.on_failure\<close>).
\<close>

subsection \<open>Data model (app/models/execution.py, app/models/test_case.py)\<close>

datatype ExecutionStatus =
  PENDING | QUEUED | RUNNING | PAUSED | COMPLETED | FAILED | CANCELLED | TIMEOUT

datatype TestResultStatus =
  R_PASSED | R_FAILED | R_SKIPPED | R_BLOCKED | R_ERROR | R_PENDING

fun ExecutionStatus_value :: "ExecutionStatus \<Rightarrow> string" where
  "ExecutionStatus_value PENDING = ''pending''"
| "ExecutionStatus_value QUEUED = ''queued''"
| "ExecutionStatus_value RUNNING = ''running''"
| "ExecutionStatus_value PAUSED = ''paused''"
| "ExecutionStatus_value COMPLETED = ''completed''"
| "ExecutionStatus_value FAILED = ''failed''"
| "ExecutionStatus_value CANCELLED = ''cancelled''"
| "ExecutionStatus_value TIMEOUT = ''timeout''"

fun TestResultStatus_value :: "TestResultStatus \<Rightarrow> string" where
  "TestResultStatus_value R_PASSED = ''passed''"
| "TestResultStatus_value R_FAILED = ''failed''"
| "TestResultStatus_value R_SKIPPED = ''skipped''"
| "TestResultStatus_value R_BLOCKED = ''blocked''"
| "TestResultStatus_value R_ERROR = ''error''"
| "TestResultStatus_value R_PENDING = ''pending''"

record TestExecution =
  exec_id :: nat
  project_id :: nat
  test_suite_id :: "nat option"
  status :: ExecutionStatus
  environment :: "string option"
  started_at :: "nat option"
  completed_at :: "nat option"
  duration_seconds :: "int option"
  total_tests :: int
  passed_tests :: int
  failed_tests :: int
  skipped_tests :: int
  blocked_tests :: int
  error_tests :: int
  error_message :: "string option"
  celery_task_id :: "string option"

text \<open>
  A row of \<open>test_case_results\<close>. The fields that share a name with a field of
  \<open>TestExecution\<close> carry the prefix \<open>r_\<close>. Rows are kept in insertion order; the position
  of a row in the table stands for its primary key, which the code never reads.
\<close>

record TestCaseResult =
  execution_id :: nat
  test_case_id :: nat
  r_status :: TestResultStatus
  r_started_at :: "nat option"
  r_completed_at :: "nat option"
  r_duration_seconds :: "int option"
  actual_result :: "string option"
  r_error_message :: "string option"
  r_environment :: "string option"

text \<open>
  A row of \<open>test_cases\<close> with the ids of the suites it is linked to through the
  association table \<open>suite_test_cases\<close>.
\<close>

record TestCase =
  tc_id :: nat
  tc_project_id :: nat
  tc_status :: string
  tc_test_suites :: "nat list"

subsection \<open>Values stored in the cache and returned by the tasks\<close>

text \<open>
  \<open>JIso t\<close> is the string \<open>t.isoformat()\<close> of the timestamp \<open>t\<close>. A Python dict
  literal is the list of its items in the order written.
\<close>

datatype json = JNone | JBool bool | JInt int | JNum rat | JStr string | JIso nat

type_synonym pydict = "(string \<times> json) list"

record log_result =
  log_test_case_id :: nat
  log_status :: string
  log_duration :: "int option"
  log_error :: "string option"

record log_entry =
  log_execution_id :: nat
  log_timestamp :: nat
  results_count :: nat
  log_results :: "log_result list"

record world =
  executions :: "nat \<rightharpoonup> TestExecution"
  results :: "TestCaseResult list"
  test_cases :: "TestCase list"
  cache :: "string \<rightharpoonup> pydict"
  execution_logs :: "log_entry list"
  stdout :: "string list"
  clock :: nat

subsection \<open>The environment of one job\<close>

text \<open>
  \<open>unit_of_work ev idx\<close> is what the simulated test execution of the iteration with index
  \<open>idx\<close> does. \<open>Ran passed\<close>: the sleep and the random draw finish and the draw says
  \<open>passed\<close>. \<open>Raises m\<close>: an exception whose \<open>str\<close> is \<open>m\<close> is raised in the \<open>try\<close> block.

  \<open>cache_raises ev site = Some m\<close>: the cache operation at that place raises an exception
  whose \<open>str\<close> is \<open>m\<close> (no connection, a network error). The places are the
  \<open>set_json\<close> of line 98 (\<open>AtRunning\<close>), of line 134 in the iteration with index \<open>idx\<close>
  (\<open>AtProgress idx\<close>), of line 157 (\<open>AtCompleted\<close>) and of line 186 (\<open>AtFailed\<close>), and the
  \<open>delete\<close> of line 404 (\<open>AtCancel\<close>).

  \<open>log_raises ev = Some m\<close>: \<open>MongoDB.get_database()\<close> or \<open>insert_one\<close> raises such an
  exception inside the \<open>try\<close> of \<open>_store_execution_logs\<close>.
\<close>

datatype test_outcome = Ran bool | Raises string

datatype cache_site = AtRunning | AtProgress nat | AtCompleted | AtFailed | AtCancel

record env =
  unit_of_work :: "nat \<Rightarrow> test_outcome"
  cache_raises :: "cache_site \<Rightarrow> string option"
  log_raises :: "string option"

subsection \<open>Helpers: clock, decimal strings, cache keys, cache operations\<close>

definition tick :: "world \<Rightarrow> world" where
  "tick w = w\<lparr>clock := Suc (clock w)\<rparr>"

fun str_nat :: "nat \<Rightarrow> string" where
  "str_nat n =
     (if n < 10 then [''0123456789'' ! n]
      else str_nat (n div 10) @ [''0123456789'' ! (n mod 10)])"

declare str_nat.simps [simp del]

definition execution_status :: "string \<Rightarrow> string" where
  "execution_status eid = ''execution:status:'' @ eid"

definition set_json :: "env \<Rightarrow> cache_site \<Rightarrow> string \<Rightarrow> pydict \<Rightarrow> world \<Rightarrow> string + world" where
  "set_json ev site key v w =
     (case cache_raises ev site of
        Some m \<Rightarrow> Inl m
      | None \<Rightarrow> Inr (w\<lparr>cache := (cache w)(key \<mapsto> v)\<rparr>))"

definition delete :: "env \<Rightarrow> cache_site \<Rightarrow> string \<Rightarrow> world \<Rightarrow> string + world" where
  "delete ev site key w =
     (case cache_raises ev site of
        Some m \<Rightarrow> Inl m
      | None \<Rightarrow> Inr (w\<lparr>cache := (cache w)(key := None)\<rparr>))"

text \<open>Writing the session's \<open>execution\<close> object to its row (flush or commit).\<close>

definition commit :: "TestExecution \<Rightarrow> world \<Rightarrow> world" where
  "commit execution w = w\<lparr>executions := (executions w)(exec_id execution \<mapsto> execution)\<rparr>"

subsection \<open>TestExecution.pass_rate\<close>

text \<open>
  Python's floats are IEEE 754 doubles: 53 bits of significand, the result of an operation
  being the representable number nearest to the exact result, a tie going to the one with
  the even significand. The exponent is not bounded here: overflow and subnormal numbers
  are left out, and they do not occur for quotients of counters and percentages.

  \<open>round_half_even y\<close> is the integer nearest to \<open>y\<close>, a tie going to the even one;
  \<open>binade x\<close>, for a positive \<open>x\<close>, is the exponent \<open>e\<close> with \<open>2^e \<le> x < 2^(e+1)\<close>;
  \<open>to_double x\<close> is the double nearest to \<open>x\<close>.
\<close>

definition round_half_even :: "rat \<Rightarrow> int" where
  "round_half_even y =
     (let f = \<lfloor>y\<rfloor>; d = y - of_int f
      in if d < 1 / 2 then f else if 1 / 2 < d then f + 1
         else if even f then f else f + 1)"

definition binade :: "rat \<Rightarrow> int" where
  "binade x =
     (if 1 \<le> x then bitlen \<lfloor>x\<rfloor> - 1
      else (let l = bitlen \<lfloor>1 / x\<rfloor>
            in if x = power_int 2 (1 - l) then 1 - l else - l))"

definition to_double :: "rat \<Rightarrow> rat" where
  "to_double x =
     (if x = 0 then 0
      else (let q = power_int 2 (binade \<bar>x\<bar> - 52)
            in of_int (round_half_even (x / q)) * q))"

text \<open>
  \<open>a / b\<close> on Python ints: \<open>ZeroDivisionError\<close> for a zero divisor, otherwise the double
  nearest to the exact quotient.
\<close>

definition truediv :: "int \<Rightarrow> int \<Rightarrow> string + rat" where
  "truediv a b =
     (if b = 0 then Inl ''division by zero''
      else Inr (to_double (of_int a / of_int b)))"

text \<open>
  \<open>round(x, 2)\<close> on a float: the decimal with two places nearest to the exact value of
  \<open>x\<close>, a tie going to the even last digit, and then the double nearest to that decimal.
\<close>

definition py_round2 :: "rat \<Rightarrow> rat" where
  "py_round2 x = to_double (of_int (round_half_even (x * 100)) / 100)"

text \<open>The property \<open>pass_rate\<close> (lines 180-186 of \<^verbatim>\<open>app/models/execution.py\<close>).\<close>

definition pass_rate :: "TestExecution \<Rightarrow> string + rat" where
  "pass_rate e =
     (let executed = passed_tests e + failed_tests e
      in if executed = 0 then Inr 0
         else (case truediv (passed_tests e) executed of
                 Inl m \<Rightarrow> Inl m
               | Inr q \<Rightarrow> Inr (py_round2 (to_double (q * 100)))))"

definition is_running :: "TestExecution \<Rightarrow> bool" where
  "is_running e \<longleftrightarrow> status e \<in> set [RUNNING, QUEUED]"

definition is_complete :: "TestExecution \<Rightarrow> bool" where
  "is_complete e \<longleftrightarrow> status e \<in> set [COMPLETED, FAILED, CANCELLED, TIMEOUT]"

subsection \<open>_get_test_cases_for_execution\<close>

text \<open>
  With a suite id that is truthy (not \<open>None\<close>, not 0) the select joins every test case with
  its suite links and keeps the rows of the test cases that have a link to the suite: one
  row for each link of such a test case, since the result is not made unique. Otherwise
  the active test cases of the project. SQL leaves the order of the rows open; they are
  taken in table order.
\<close>

definition suite_rows :: "nat \<Rightarrow> TestCase list \<Rightarrow> TestCase list" where
  "suite_rows sid tcs =
     concat (map (\<lambda>tc. if sid \<in> set (tc_test_suites tc)
                        then replicate (length (tc_test_suites tc)) tc else []) tcs)"

definition project_rows :: "nat \<Rightarrow> TestCase list \<Rightarrow> TestCase list" where
  "project_rows pid tcs =
     filter (\<lambda>tc. tc_project_id tc = pid \<and> tc_status tc = ''active'') tcs"

definition get_test_cases_for_execution :: "world \<Rightarrow> TestExecution \<Rightarrow> TestCase list" where
  "get_test_cases_for_execution w execution =
     (case test_suite_id execution of
        Some sid \<Rightarrow>
          if sid \<noteq> 0 then suite_rows sid (test_cases w)
          else project_rows (project_id execution) (test_cases w)
      | None \<Rightarrow> project_rows (project_id execution) (test_cases w))"

subsection \<open>_execute_single_test\<close>

text \<open>
  The row is created in PENDING (lines 241-250) and written with its final values by the
  flush of the \<open>try\<close> block (line 273) or of its handler (line 285); the table receives the
  row with the values of that last flush. The simulated test execution of lines 253-259 is
  the \<open>unit_of_work\<close> of the environment.

  \<open>seconds_between\<close> is \<open>(later - earlier).total_seconds()\<close>. Where the code subtracts, both
  timestamps have been set by the same coroutine (\<open>started_at\<close> at line 93 or 245), so the
  result is never \<open>None\<close> there.
\<close>

definition seconds_between :: "nat option \<Rightarrow> nat option \<Rightarrow> int option" where
  "seconds_between later earlier =
     (case (later, earlier) of
        (Some b, Some a) \<Rightarrow> Some (int b - int a)
      | _ \<Rightarrow> None)"

definition execute_single_test ::
  "env \<Rightarrow> nat \<Rightarrow> TestExecution \<Rightarrow> TestCase \<Rightarrow> world \<Rightarrow> TestCaseResult \<times> world" where
  "execute_single_test ev idx execution test_case w =
     (let start_time = clock w;
          w1 = tick w;
          result = \<lparr>execution_id = exec_id execution,
                    test_case_id = tc_id test_case,
                    r_status = R_PENDING,
                    r_started_at = Some start_time,
                    r_completed_at = None,
                    r_duration_seconds = None,
                    actual_result = None,
                    r_error_message = None,
                    r_environment = environment execution\<rparr>;
          done_at = clock w1;
          w2 = tick w1;
          final =
            (case unit_of_work ev idx of
               Ran passed \<Rightarrow>
                 result\<lparr>r_status := (if passed then R_PASSED else R_FAILED),
                        r_completed_at := Some done_at,
                        r_duration_seconds := seconds_between (Some done_at) (Some start_time),
                        r_error_message :=
                          (if \<not> passed then Some ''Test assertion failed'' else None),
                        actual_result :=
                          (if \<not> passed then Some ''Expected value did not match actual value''
                           else Some ''All assertions passed'')\<rparr>
             | Raises m \<Rightarrow>
                 result\<lparr>r_status := R_ERROR,
                        r_error_message := Some m,
                        r_completed_at := Some done_at,
                        r_duration_seconds := seconds_between (Some done_at) (Some start_time)\<rparr>)
      in (final, w2\<lparr>results := results w2 @ [final]\<rparr>))"

subsection \<open>_update_execution_summary\<close>

definition count_status :: "TestResultStatus \<Rightarrow> TestCaseResult list \<Rightarrow> int" where
  "count_status st rs = sum_list (map (\<lambda>r. 1) (filter (\<lambda>r. r_status r = st) rs))"

definition results_of :: "nat \<Rightarrow> world \<Rightarrow> TestCaseResult list" where
  "results_of eid w = filter (\<lambda>r. execution_id r = eid) (results w)"

definition update_execution_summary :: "world \<Rightarrow> TestExecution \<Rightarrow> TestExecution \<times> world" where
  "update_execution_summary w execution =
     (let rs = results_of (exec_id execution) w;
          execution1 = execution\<lparr>passed_tests := count_status R_PASSED rs,
                                 failed_tests := count_status R_FAILED rs,
                                 skipped_tests := count_status R_SKIPPED rs,
                                 blocked_tests := count_status R_BLOCKED rs,
                                 error_tests := count_status R_ERROR rs\<rparr>
      in (execution1, commit execution1 w))"

subsection \<open>_store_execution_logs\<close>

definition log_result_of :: "TestCaseResult \<Rightarrow> log_result" where
  "log_result_of r =
     \<lparr>log_test_case_id = test_case_id r,
      log_status = TestResultStatus_value (r_status r),
      log_duration = r_duration_seconds r,
      log_error = r_error_message r\<rparr>"

definition store_execution_logs :: "env \<Rightarrow> nat \<Rightarrow> TestCaseResult list \<Rightarrow> world \<Rightarrow> world" where
  "store_execution_logs ev eid rs w =
     (case log_raises ev of
        Some m \<Rightarrow> w\<lparr>stdout := stdout w @ [''Failed to store execution logs: '' @ m]\<rparr>
      | None \<Rightarrow>
          (let w1 = tick w;
               entry = \<lparr>log_execution_id = eid,
                        log_timestamp = clock w,
                        results_count = length rs,
                        log_results = map log_result_of rs\<rparr>
           in w1\<lparr>execution_logs := execution_logs w1 @ [entry]\<rparr>))"

subsection \<open>_execute_test_suite_async\<close>

text \<open>The loop of lines 123-143; \<open>len\<close> is \<open>len(test_cases)\<close>.\<close>

fun run_tests ::
  "env \<Rightarrow> TestExecution \<Rightarrow> nat \<Rightarrow> nat \<Rightarrow> TestCase list \<Rightarrow> TestCaseResult list \<Rightarrow> world
   \<Rightarrow> (string \<times> world) + (TestCaseResult list \<times> world)" where
  "run_tests ev execution len idx [] acc w = Inr (acc, w)"
| "run_tests ev execution len idx (test_case # rest) acc w =
     (case execute_single_test ev idx execution test_case w of
        (result, w1) \<Rightarrow>
          (case set_json ev (AtProgress idx)
                  (execution_status (str_nat (exec_id execution)))
                  [(''status'', JStr (ExecutionStatus_value RUNNING)),
                   (''progress'',
                      JNum (to_double (to_double (of_nat (idx + 1) / of_nat len) * 100))),
                   (''completed'', JInt (int (idx + 1))),
                   (''total'', JInt (int len))] w1 of
             Inl m \<Rightarrow> Inl (m, w1)
           | Inr w2 \<Rightarrow> run_tests ev execution len (idx + 1) rest (acc @ [result]) w2))"

text \<open>
  Lines 145-178, after the loop: the recount, the transition to COMPLETED and its commit,
  the final snapshot, the log entry, the returned dict. An exception comes with the
  \<open>execution\<close> object and the world as they are when it is raised, for the handler of
  the \<open>try\<close> to go on from.
\<close>

definition complete_execution ::
  "env \<Rightarrow> TestExecution \<Rightarrow> TestCaseResult list \<Rightarrow> world
   \<Rightarrow> (string \<times> TestExecution \<times> world) + (pydict \<times> world)" where
  "complete_execution ev execution rs w =
     (case update_execution_summary w execution of
        (execution1, w1) \<Rightarrow>
          (let now = clock w1;
               execution2 = execution1\<lparr>status := COMPLETED, completed_at := Some now\<rparr>;
               execution3 = execution2\<lparr>duration_seconds :=
                 seconds_between (completed_at execution2) (started_at execution2)\<rparr>;
               w2 = commit execution3 (tick w1)
           in case pass_rate execution3 of
                Inl m \<Rightarrow> Inl (m, execution3, w2)
              | Inr rate \<Rightarrow>
                  (case set_json ev AtCompleted
                          (execution_status (str_nat (exec_id execution)))
                          [(''status'', JStr (ExecutionStatus_value COMPLETED)),
                           (''completed_at'', JIso now),
                           (''duration'',
                              (case duration_seconds execution3 of
                                 Some d \<Rightarrow> JInt d | None \<Rightarrow> JNone)),
                           (''pass_rate'', JNum rate)] w2 of
                     Inl m \<Rightarrow> Inl (m, execution3, w2)
                   | Inr w3 \<Rightarrow>
                       Inr ([(''success'', JBool True),
                             (''execution_id'', JInt (int (exec_id execution))),
                             (''total_tests'', JInt (total_tests execution3)),
                             (''passed'', JInt (passed_tests execution3)),
                             (''failed'', JInt (failed_tests execution3)),
                             (''duration'',
                                (case duration_seconds execution3 of
                                   Some d \<Rightarrow> JInt d | None \<Rightarrow> JNone))],
                            store_execution_logs ev (exec_id execution) rs w3))))"

text \<open>The body of the \<open>try\<close> (lines 109-178).\<close>

definition try_body ::
  "env \<Rightarrow> TestExecution \<Rightarrow> world \<Rightarrow> (string \<times> TestExecution \<times> world) + (pydict \<times> world)" where
  "try_body ev execution w =
     (let tcs = get_test_cases_for_execution w execution in
      if tcs = [] then
        (let now = clock w;
             execution1 = execution\<lparr>status := COMPLETED, completed_at := Some now,
                                    total_tests := 0\<rparr>;
             w1 = commit execution1 (tick w)
         in Inr ([(''success'', JBool True), (''total_tests'', JInt 0)], w1))
      else
        (let execution1 = execution\<lparr>total_tests := int (length tcs)\<rparr>;
             w1 = commit execution1 w
         in case run_tests ev execution1 (length tcs) 0 tcs [] w1 of
              Inl (m, w2) \<Rightarrow> Inl (m, execution1, w2)
            | Inr (rs, w2) \<Rightarrow> complete_execution ev execution1 rs w2))"

text \<open>The handler of the \<open>try\<close> (lines 180-195): FAILED is committed, then the exception
  goes on (or the one of the cache write, if that raises).\<close>

definition except_handler ::
  "env \<Rightarrow> string \<Rightarrow> TestExecution \<Rightarrow> world \<Rightarrow> (string + pydict) \<times> world" where
  "except_handler ev m execution w =
     (let now = clock w;
          execution1 = execution\<lparr>status := FAILED, error_message := Some m,
                                 completed_at := Some now\<rparr>;
          w1 = commit execution1 (tick w)
      in case set_json ev AtFailed (execution_status (str_nat (exec_id execution)))
                [(''status'', JStr (ExecutionStatus_value FAILED)), (''error'', JStr m)] w1 of
           Inl m2 \<Rightarrow> (Inl m2, w1)
         | Inr w2 \<Rightarrow> (Inl m, w2))"

text \<open>Lines 91-95: the transition to RUNNING, committed before anything else is done.\<close>

definition mark_running :: "TestExecution \<Rightarrow> string \<Rightarrow> world \<Rightarrow> TestExecution \<times> world" where
  "mark_running execution task_id w =
     (let execution1 = execution\<lparr>status := RUNNING, started_at := Some (clock w),
                                 celery_task_id := Some task_id\<rparr>
      in (execution1, commit execution1 (tick w)))"

definition execute_test_suite_async ::
  "env \<Rightarrow> nat \<Rightarrow> string \<Rightarrow> world \<Rightarrow> (string + pydict) \<times> world" where
  "execute_test_suite_async ev eid task_id w =
     (case executions w eid of
        None \<Rightarrow> (Inr [(''success'', JBool False), (''error'', JStr ''Execution not found'')], w)
      | Some execution \<Rightarrow>
          (case mark_running execution task_id w of
             (execution1, w1) \<Rightarrow>
               (case set_json ev AtRunning (execution_status (str_nat eid))
                       [(''status'', JStr (ExecutionStatus_value RUNNING)),
                        (''started_at'',
                           (case started_at execution1 of Some t \<Rightarrow> JIso t | None \<Rightarrow> JNone)),
                        (''progress'', JInt 0)] w1 of
                  Inl m \<Rightarrow> (Inl m, w1)
                | Inr w2 \<Rightarrow>
                    (case try_body ev execution1 w2 of
                       Inr (ret, w3) \<Rightarrow> (Inr ret, w3)
                     | Inl (m, execution2, w3) \<Rightarrow> except_handler ev m execution2 w3))))"

subsection \<open>_cancel_execution_async\<close>

definition cancel_execution_async :: "env \<Rightarrow> nat \<Rightarrow> world \<Rightarrow> (string + pydict) \<times> world" where
  "cancel_execution_async ev eid w =
     (case executions w eid of
        None \<Rightarrow> (Inr [(''success'', JBool False), (''error'', JStr ''Execution not found'')], w)
      | Some execution \<Rightarrow>
          if status execution \<notin> set [RUNNING, QUEUED] then
            (Inr [(''success'', JBool False), (''error'', JStr ''Execution is not running'')], w)
          else
            (let execution1 = execution\<lparr>status := CANCELLED, completed_at := Some (clock w)\<rparr>;
                 w1 = commit execution1 (tick w)
             in case delete ev AtCancel (execution_status (str_nat eid)) w1 of
                  Inl m \<Rightarrow> (Inl m, w1)
                | Inr w2 \<Rightarrow> (Inr [(''success'', JBool True), (''execution_id'', JInt (int eid))], w2)))"

subsection \<open>Notions used in the properties\<close>

text \<open>
  The terminal results (any status but PENDING) that the table holds for test case \<open>c\<close>
  in execution \<open>eid\<close>.
\<close>

definition terminal_results :: "nat \<Rightarrow> nat \<Rightarrow> world \<Rightarrow> TestCaseResult list" where
  "terminal_results eid c w =
     filter (\<lambda>r. execution_id r = eid \<and> test_case_id r = c \<and> r_status r \<noteq> R_PENDING)
       (results w)"

text \<open>The results that the counters of a row account for.\<close>

definition counted_tests :: "TestExecution \<Rightarrow> int" where
  "counted_tests e =
     passed_tests e + failed_tests e + skipped_tests e + blocked_tests e + error_tests e"

subsection \<open>Concrete inputs\<close>

text \<open>
  An execution with id 7 in project 3 with no suite, in a given status and with all counters
  0; active test cases of project 3; a PASSED result row of the execution; a world that holds
  the execution, a list of test cases, a list of result rows, no log entries and a snapshot
  left in the cache; an environment in which neither the cache nor the log store raises,
  and one with given faults of the cache and of the log store.
\<close>

definition example_execution :: "ExecutionStatus \<Rightarrow> TestExecution" where
  "example_execution st =
     \<lparr>exec_id = 7, project_id = 3, test_suite_id = None, status = st,
      environment = None, started_at = None, completed_at = None, duration_seconds = None,
      total_tests = 0, passed_tests = 0, failed_tests = 0, skipped_tests = 0,
      blocked_tests = 0, error_tests = 0, error_message = None, celery_task_id = None\<rparr>"

definition example_test_case :: "nat \<Rightarrow> TestCase" where
  "example_test_case n =
     \<lparr>tc_id = n, tc_project_id = 3, tc_status = ''active'', tc_test_suites = []\<rparr>"

definition example_result :: "nat \<Rightarrow> TestCaseResult" where
  "example_result c =
     \<lparr>execution_id = 7, test_case_id = c, r_status = R_PASSED, r_started_at = Some 50,
      r_completed_at = Some 51, r_duration_seconds = Some 1,
      actual_result = Some ''All assertions passed'', r_error_message = None,
      r_environment = None\<rparr>"

definition example_world ::
  "ExecutionStatus \<Rightarrow> TestCase list \<Rightarrow> TestCaseResult list \<Rightarrow> world" where
  "example_world st tcs rows =
     \<lparr>executions = [7 \<mapsto> example_execution st], results = rows, test_cases = tcs,
      cache = [''execution:status:7'' \<mapsto> [(''status'', JStr ''running'')]],
      execution_logs = [], stdout = [], clock = 100\<rparr>"

definition quiet_env :: "(nat \<Rightarrow> test_outcome) \<Rightarrow> env" where
  "quiet_env u = \<lparr>unit_of_work = u, cache_raises = (\<lambda>_. None), log_raises = None\<rparr>"

definition faulty_env ::
  "(nat \<Rightarrow> test_outcome) \<Rightarrow> (cache_site \<Rightarrow> string option) \<Rightarrow> string option \<Rightarrow> env" where
  "faulty_env u c l = \<lparr>unit_of_work = u, cache_raises = c, log_raises = l\<rparr>"

text \<open>Environments and worlds of the scenarios below.\<close>

definition passing_env :: env where
  "passing_env = quiet_env (\<lambda>_. Ran True)"

definition mixed_env :: env where
  "mixed_env = quiet_env (\<lambda>i. if i = 2 then Ran False else Ran True)"

definition interrupted_env :: env where
  "interrupted_env =
     faulty_env (\<lambda>_. Ran True)
       (\<lambda>s. if s = AtProgress 0 then Some ''connection lost'' else None) None"

definition final_snapshot_fails_env :: env where
  "final_snapshot_fails_env =
     faulty_env (\<lambda>i. if i = 2 then Ran False else Ran True)
       (\<lambda>s. if s = AtCompleted then Some ''connection lost'' else None) None"

definition log_store_down_env :: env where
  "log_store_down_env =
     faulty_env (\<lambda>i. if i = 2 then Ran False else Ran True) (\<lambda>_. None)
       (Some ''MongoDB is not connected. Call connect() first.'')"

definition empty_world :: world where
  "empty_world = example_world QUEUED [] []"

definition two_case_world :: world where
  "two_case_world = example_world QUEUED [example_test_case 10, example_test_case 11] []"

definition three_case_world :: world where
  "three_case_world =
     example_world QUEUED [example_test_case 10, example_test_case 11, example_test_case 12] []"

text \<open>
  Re-entry: a first job on \<open>two_case_world\<close> whose progress write after the first test
  case raises, then a second job for the same execution.
\<close>

definition after_first_job :: world where
  "after_first_job = snd (execute_test_suite_async interrupted_env 7 ''job-1'' two_case_world)"

definition after_second_job :: world where
  "after_second_job = snd (execute_test_suite_async passing_env 7 ''job-2'' after_first_job)"

text \<open>Two complete jobs for the same execution on \<open>three_case_world\<close>.\<close>

definition after_one_run :: world where
  "after_one_run = snd (execute_test_suite_async mixed_env 7 ''job-1'' three_case_world)"

definition after_two_runs :: world where
  "after_two_runs = snd (execute_test_suite_async mixed_env 7 ''job-2'' after_one_run)"

text \<open>
  Cancellation between two iterations of the loop. A job on \<open>two_case_world\<close> has
  committed RUNNING, written the first snapshot and committed \<open>total_tests\<close>
  (\<open>loop_execution\<close> is its \<open>execution\<close> object, \<open>loop_world\<close> the world); it runs the first
  iteration of its loop; the cancellation task runs; the job runs the second iteration.
\<close>

definition loop_execution :: TestExecution where
  "loop_execution =
     (fst (mark_running (example_execution QUEUED) ''job'' two_case_world))
       \<lparr>total_tests := 2\<rparr>"

definition loop_world :: world where
  "loop_world =
     commit loop_execution
       (projr (set_json passing_env AtRunning (execution_status (str_nat 7))
          [(''status'', JStr (ExecutionStatus_value RUNNING)),
           (''started_at'', JIso 100), (''progress'', JInt 0)]
          (snd (mark_running (example_execution QUEUED) ''job'' two_case_world))))"

definition first_iteration ::
  "(string \<times> world) + (TestCaseResult list \<times> world)" where
  "first_iteration = run_tests passing_env loop_execution 2 0 [example_test_case 10] [] loop_world"

definition cancelled_world :: world where
  "cancelled_world = snd (cancel_execution_async passing_env 7 (snd (projr first_iteration)))"

definition second_iteration ::
  "(string \<times> world) + (TestCaseResult list \<times> world)" where
  "second_iteration =
     run_tests passing_env loop_execution 2 1 [example_test_case 11]
       (fst (projr first_iteration)) cancelled_world"

text \<open>
  A test case that belongs to the suites 4 and 5, alone in its project, and an execution
  that targets suite 4.
\<close>

definition shared_test_case :: TestCase where
  "shared_test_case =
     \<lparr>tc_id = 10, tc_project_id = 3, tc_status = ''active'', tc_test_suites = [4, 5]\<rparr>"

definition suite_execution :: TestExecution where
  "suite_execution = (example_execution QUEUED)\<lparr>test_suite_id := Some 4\<rparr>"

definition suite_world :: world where
  "suite_world =
     \<lparr>executions = [7 \<mapsto> suite_execution], results = [], test_cases = [shared_test_case],
      cache = Map.empty, execution_logs = [], stdout = [], clock = 100\<rparr>"

definition after_suite_job :: world where
  "after_suite_job = snd (execute_test_suite_async passing_env 7 ''job'' suite_world)"

text \<open>
  An execution that was completed over six test cases, with one result of each status but
  two PASSED, and whose test cases have been archived since.
\<close>

definition archived_execution :: TestExecution where
  "archived_execution =
     \<lparr>exec_id = 7, project_id = 3, test_suite_id = None, status = COMPLETED,
      environment = None, started_at = Some 50, completed_at = Some 62,
      duration_seconds = Some 12, total_tests = 6, passed_tests = 2, failed_tests = 1,
      skipped_tests = 1, blocked_tests = 1, error_tests = 1, error_message = None,
      celery_task_id = Some ''job-1''\<rparr>"

definition archived_world :: world where
  "archived_world =
     \<lparr>executions = [7 \<mapsto> archived_execution],
      results = [example_result 10, example_result 11,
                 (example_result 12)\<lparr>r_status := R_FAILED\<rparr>,
                 (example_result 13)\<lparr>r_status := R_SKIPPED\<rparr>,
                 (example_result 14)\<lparr>r_status := R_BLOCKED\<rparr>,
                 (example_result 15)\<lparr>r_status := R_ERROR\<rparr>],
      test_cases = [(example_test_case 10)\<lparr>tc_status := ''archived''\<rparr>,
                    (example_test_case 11)\<lparr>tc_status := ''archived''\<rparr>],
      cache = Map.empty, execution_logs = [], stdout = [], clock = 100\<rparr>"

text \<open>A row with given \<open>passed_tests\<close> and \<open>failed_tests\<close>.\<close>

definition counted_row :: "int \<Rightarrow> int \<Rightarrow> TestExecution" where
  "counted_row p f =
     \<lparr>exec_id = 7, project_id = 3, test_suite_id = None, status = COMPLETED,
      environment = None, started_at = None, completed_at = None, duration_seconds = None,
      total_tests = p + f, passed_tests = p, failed_tests = f, skipped_tests = 0,
      blocked_tests = 0, error_tests = 0, error_message = None, celery_task_id = None\<rparr>"

section \<open>Properties\<close>

subsection \<open>Rounding to an integer\<close>

lemma round_half_even_near: "\<bar>of_int (round_half_even y) - y\<bar> \<le> 1 / 2"
proof -
  define f where "f = \<lfloor>y\<rfloor>"
  define d where "d = y - of_int f"
  have d: "0 \<le> d" "d < 1" unfolding d_def f_def by linarith+
  have y: "y = of_int f + d" unfolding d_def by simp
  have r: "round_half_even y =
      (if d < 1 / 2 then f else if 1 / 2 < d then f + 1 else if even f then f else f + 1)"
    unfolding round_half_even_def Let_def d_def f_def by simp
  have "of_int (round_half_even y) - y =
      (if d < 1 / 2 then - d else if 1 / 2 < d then 1 - d else if even f then - d else 1 - d)"
    unfolding r by (simp add: d_def)
  then show ?thesis using d by (simp add: abs_le_iff)
qed

lemma round_half_even_le: "y \<le> of_int m \<Longrightarrow> round_half_even y \<le> m"
proof -
  assume le: "y \<le> of_int m"
  define f where "f = \<lfloor>y\<rfloor>"
  define d where "d = y - of_int f"
  have fm: "f \<le> m" unfolding f_def using le by (simp add: floor_le_iff)
  have r: "round_half_even y =
      (if d < 1 / 2 then f else if 1 / 2 < d then f + 1 else if even f then f else f + 1)"
    unfolding round_half_even_def Let_def d_def f_def by simp
  show ?thesis
  proof (cases "f = m")
    case True
    then have "d \<le> 0" unfolding d_def using le by simp
    then show ?thesis unfolding r using True by simp
  next
    case False
    with fm have "f + 1 \<le> m" by simp
    then show ?thesis unfolding r by simp
  qed
qed

lemma round_half_even_ge: "of_int m \<le> y \<Longrightarrow> m \<le> round_half_even y"
proof -
  assume "of_int m \<le> y"
  then have "m \<le> \<lfloor>y\<rfloor>" by (simp add: le_floor_iff)
  then show ?thesis unfolding round_half_even_def Let_def by simp
qed

subsection \<open>The binade of a positive rational\<close>

lemma binade_bounds:
  assumes "0 < x"
  shows "power_int 2 (binade x) \<le> x \<and> x < power_int 2 (binade x + 1)"
proof (cases "1 \<le> x")
  case True
  define m where "m = \<lfloor>x\<rfloor>"
  have m1: "1 \<le> m" unfolding m_def using True by simp
  then have m0: "0 < m" by simp
  from bitlen_bounds [OF m0] have lo: "2 ^ nat (bitlen m - 1) \<le> m" and hi: "m < 2 ^ nat (bitlen m)"
    by simp_all
  have l1: "1 \<le> bitlen m"
    using m0 bitlen_eq_zero_iff [of m] bitlen_nonneg [of m] by linarith
  have e: "binade x = bitlen m - 1" unfolding binade_def m_def using True by simp
  have "(2::rat) ^ nat (bitlen m - 1) = of_int (2 ^ nat (bitlen m - 1))" by simp
  also have "\<dots> \<le> of_int m" using lo by (simp only: of_int_le_iff)
  also have "\<dots> \<le> x" unfolding m_def by simp
  finally have A: "power_int 2 (binade x) \<le> x"
    unfolding e using l1 by (simp add: power_int_def)
  have "m + 1 \<le> 2 ^ nat (bitlen m)" using hi by simp
  then have "(of_int (m + 1) :: rat) \<le> of_int (2 ^ nat (bitlen m))" by (simp only: of_int_le_iff)
  moreover have "x < of_int (m + 1)" unfolding m_def by linarith
  ultimately have "x < 2 ^ nat (bitlen m)" by simp
  then have B: "x < power_int 2 (binade x + 1)"
    unfolding e using l1 by (simp add: power_int_def)
  from A B show ?thesis ..
next
  case False
  then have x1: "x < 1" by simp
  define m where "m = \<lfloor>1 / x\<rfloor>"
  define l where "l = bitlen m"
  have inv: "1 < 1 / x" using assms x1 by simp
  have m1: "1 \<le> m" unfolding m_def using inv by simp
  then have m0: "0 < m" by simp
  from bitlen_bounds [OF m0] have lo: "2 ^ nat (l - 1) \<le> m" and hi: "m < 2 ^ nat l"
    unfolding l_def by simp_all
  have l1: "1 \<le> l"
    unfolding l_def using m0 bitlen_eq_zero_iff [of m] bitlen_nonneg [of m] by linarith
  have e: "binade x = (if x = power_int 2 (1 - l) then 1 - l else - l)"
    unfolding binade_def l_def m_def using False by (simp add: Let_def)
  have "(2::rat) ^ nat (l - 1) = of_int (2 ^ nat (l - 1))" by simp
  also have "\<dots> \<le> of_int m" using lo by (simp only: of_int_le_iff)
  also have "\<dots> \<le> 1 / x" unfolding m_def by simp
  finally have "(2::rat) ^ nat (l - 1) \<le> 1 / x" .
  then have "x * 2 ^ nat (l - 1) \<le> 1" using assms by (simp add: field_simps)
  then have up: "x \<le> 1 / 2 ^ nat (l - 1)" by (simp add: field_simps)
  have p1: "power_int (2::rat) (1 - l) = 1 / 2 ^ nat (l - 1)"
    using l1 by (cases "l = 1") (simp_all add: power_int_def field_simps)
  have "m + 1 \<le> 2 ^ nat l" using hi by simp
  then have "(of_int (m + 1) :: rat) \<le> of_int (2 ^ nat l)" by (simp only: of_int_le_iff)
  moreover have "1 / x < of_int (m + 1)" unfolding m_def by linarith
  ultimately have "1 / x < 2 ^ nat l" by simp
  then have "1 < x * 2 ^ nat l" using assms by (simp add: field_simps)
  then have down: "1 / 2 ^ nat l < x" by (simp add: field_simps)
  have p2: "power_int (2::rat) (- l) = 1 / 2 ^ nat l"
    using l1 by (simp add: power_int_def field_simps)
  show ?thesis
  proof (cases "x = power_int 2 (1 - l)")
    case True
    have "power_int (2::rat) (1 - l) < power_int 2 (1 - l + 1)"
      by (rule power_int_strict_increasing) simp_all
    with True show ?thesis unfolding e by simp
  next
    case F: False
    with up have "x < power_int 2 (1 - l)" unfolding p1 by simp
    moreover have "- l + 1 = 1 - l" by simp
    ultimately show ?thesis unfolding e using F down by (simp add: p2)
  qed
qed

subsection \<open>Rounding to a double\<close>

lemma to_double_zero: "to_double 0 = 0"
  by (simp add: to_double_def)

lemma to_double_error:
  assumes "0 < x"
  shows "\<bar>to_double x - x\<bar> \<le> x / 2 ^ 53"
proof -
  define e where "e = binade x"
  define q :: rat where "q = power_int 2 (e - 52)"
  have q0: "0 < q" unfolding q_def by simp
  have qe: "q = power_int 2 e / 2 ^ 52"
    unfolding q_def by (subst power_int_diff) simp_all
  have td: "to_double x = of_int (round_half_even (x / q)) * q"
    using assms unfolding to_double_def Let_def q_def e_def by simp
  have "\<bar>of_int (round_half_even (x / q)) - x / q\<bar> \<le> 1 / 2"
    by (rule round_half_even_near)
  then have "\<bar>of_int (round_half_even (x / q)) - x / q\<bar> * q \<le> 1 / 2 * q"
    using q0 by (intro mult_right_mono) simp_all
  moreover have "\<bar>of_int (round_half_even (x / q)) - x / q\<bar> * q =
      \<bar>of_int (round_half_even (x / q)) * q - x\<bar>"
  proof -
    have "(of_int (round_half_even (x / q)) - x / q) * q =
        of_int (round_half_even (x / q)) * q - x"
      using q0 by (simp add: left_diff_distrib)
    moreover have "\<bar>of_int (round_half_even (x / q)) - x / q\<bar> * q =
        \<bar>(of_int (round_half_even (x / q)) - x / q) * q\<bar>"
      using q0 by (simp add: abs_mult)
    ultimately show ?thesis by simp
  qed
  ultimately have "\<bar>to_double x - x\<bar> \<le> q / 2" unfolding td by simp
  also have "q / 2 = power_int 2 e / 2 ^ 53" unfolding qe by simp
  also have "\<dots> \<le> x / 2 ^ 53"
    using binade_bounds [OF assms] unfolding e_def by (simp add: divide_right_mono)
  finally show ?thesis .
qed

lemma to_double_nonneg: "0 \<le> x \<Longrightarrow> 0 \<le> to_double x"
proof -
  assume x: "0 \<le> x"
  show ?thesis
  proof (cases "x = 0")
    case True
    then show ?thesis by (simp add: to_double_def)
  next
    case False
    define q :: rat where "q = power_int 2 (binade \<bar>x\<bar> - 52)"
    have q0: "0 < q" unfolding q_def by simp
    have "of_int 0 \<le> x / q" using x q0 by simp
    then have "0 \<le> round_half_even (x / q)" by (rule round_half_even_ge)
    then have "0 \<le> of_int (round_half_even (x / q)) * q" using q0 by simp
    then show ?thesis using False unfolding to_double_def Let_def q_def by simp
  qed
qed

lemma to_double_le_int:
  assumes x: "0 \<le> x" and le: "x \<le> of_int b" and b: "b \<le> 2 ^ 52"
  shows "to_double x \<le> of_int b"
proof (cases "x = 0")
  case True
  with le show ?thesis by (simp add: to_double_def)
next
  case False
  with x have pos: "0 < x" by simp
  define e where "e = binade x"
  define q :: rat where "q = power_int 2 (e - 52)"
  have q0: "0 < q" unfolding q_def by simp
  have td: "to_double x = of_int (round_half_even (x / q)) * q"
    using pos unfolding to_double_def Let_def q_def e_def by simp
  have "power_int 2 e \<le> x" using binade_bounds [OF pos] unfolding e_def by simp
  also have "x \<le> of_int b" by (rule le)
  also have "(of_int b :: rat) \<le> of_int (2 ^ 52)" using b by (simp only: of_int_le_iff)
  finally have pe: "power_int (2::rat) e \<le> power_int 2 52" by simp
  have e52: "e \<le> 52"
  proof (rule ccontr)
    assume "\<not> e \<le> 52"
    then have "52 < e" by simp
    then have "power_int (2::rat) 52 < power_int 2 e"
      by (rule power_int_strict_increasing) simp
    with pe show False by simp
  qed
  have inv: "1 / q = 2 ^ nat (52 - e)"
  proof -
    have "power_int (2::rat) (52 - e) * q = power_int 2 ((52 - e) + (e - 52))"
      unfolding q_def by (subst power_int_add) simp_all
    then have "power_int (2::rat) (52 - e) * q = 1" by simp
    then have "1 / q = power_int 2 (52 - e)" using q0 by (simp add: field_simps)
    also have "52 - e = int (nat (52 - e))" using e52 by simp
    finally show ?thesis by (simp only: power_int_of_nat)
  qed
  have "x / q \<le> of_int b / q" using le q0 by (simp add: divide_right_mono)
  also have "of_int b / q = of_int b * (1 / q)" by simp
  also have "\<dots> = of_int (b * 2 ^ nat (52 - e))" unfolding inv by simp
  finally have "round_half_even (x / q) \<le> b * 2 ^ nat (52 - e)"
    by (rule round_half_even_le)
  then have "(of_int (round_half_even (x / q)) :: rat) \<le> of_int (b * 2 ^ nat (52 - e))"
    by (simp only: of_int_le_iff)
  then have "of_int (round_half_even (x / q)) * q \<le> of_int (b * 2 ^ nat (52 - e)) * q"
    using q0 by (intro mult_right_mono) simp_all
  also have "of_int (b * 2 ^ nat (52 - e)) * q = of_int b * ((1 / q) * q)"
    unfolding inv by simp
  also have "\<dots> = of_int b" using q0 by simp
  finally show ?thesis unfolding td .
qed

lemma to_double_near:
  assumes "0 \<le> x"
  shows "\<bar>to_double x - x\<bar> \<le> x / 2 ^ 53"
proof (cases "x = 0")
  case True
  then show ?thesis by (simp add: to_double_zero)
next
  case False
  with assms have "0 < x" by simp
  then show ?thesis by (rule to_double_error)
qed

subsection \<open>The pass rate\<close>

lemma py_round2_range:
  assumes x0: "0 \<le> x" and x1: "x \<le> 100"
  shows "0 \<le> py_round2 x \<and> py_round2 x \<le> 100"
proof -
  define k where "k = round_half_even (x * 100)"
  have "of_int 0 \<le> x * 100" using x0 by simp
  then have k0: "0 \<le> k" unfolding k_def by (rule round_half_even_ge)
  have "x * 100 \<le> of_int 10000" using x1 by simp
  then have k1: "k \<le> 10000" unfolding k_def by (rule round_half_even_le)
  have d0: "(0::rat) \<le> of_int k / 100" using k0 by simp
  have "(of_int k :: rat) \<le> of_int 10000" using k1 by (simp only: of_int_le_iff)
  then have d1: "(of_int k :: rat) / 100 \<le> of_int 100" by simp
  have "to_double (of_int k / 100) \<le> of_int 100"
    by (rule to_double_le_int [OF d0 d1]) simp
  moreover have "0 \<le> to_double (of_int k / 100)"
    by (rule to_double_nonneg [OF d0])
  ultimately show ?thesis unfolding py_round2_def k_def by simp
qed

text \<open>
  The percentage as the code computes it: the quotient rounded to a double, its product
  with 100 rounded to a double.
\<close>

lemma percentage_range:
  fixes p n :: int
  assumes p: "0 \<le> p" and n: "0 < n" and pn: "p \<le> n"
  shows "0 \<le> to_double (to_double (of_int p / of_int n) * 100)
       \<and> to_double (to_double (of_int p / of_int n) * 100) \<le> 100"
proof -
  define r :: rat where "r = of_int p / of_int n"
  have r0: "0 \<le> r" unfolding r_def using p n by simp
  have r1: "r \<le> of_int 1" unfolding r_def using pn n by simp
  have q0: "0 \<le> to_double r" by (rule to_double_nonneg [OF r0])
  have q1: "to_double r \<le> of_int 1" by (rule to_double_le_int [OF r0 r1]) simp
  have y0: "0 \<le> to_double r * 100" using q0 by simp
  have y1: "to_double r * 100 \<le> of_int 100" using q1 by simp
  have "to_double (to_double r * 100) \<le> of_int 100"
    by (rule to_double_le_int [OF y0 y1]) simp
  moreover have "0 \<le> to_double (to_double r * 100)"
    by (rule to_double_nonneg [OF y0])
  ultimately show ?thesis unfolding r_def by simp
qed

lemma percentage_error:
  fixes p n :: int
  assumes p: "0 \<le> p" and n: "0 < n" and pn: "p \<le> n"
  shows "\<bar>to_double (to_double (of_int p / of_int n) * 100) - of_int p / of_int n * 100\<bar>
           \<le> 200 / 2 ^ 53"
proof -
  define u :: rat where "u = 1 / 2 ^ 53"
  define r :: rat where "r = of_int p / of_int n"
  define q where "q = to_double r"
  define y where "y = q * 100"
  define x where "x = to_double y"
  have u0: "0 < u" unfolding u_def by simp
  have r0: "0 \<le> r" unfolding r_def using p n by simp
  have r1: "r \<le> of_int 1" unfolding r_def using pn n by simp
  have q0: "0 \<le> q" unfolding q_def by (rule to_double_nonneg [OF r0])
  have q1: "q \<le> of_int 1" unfolding q_def by (rule to_double_le_int [OF r0 r1]) simp
  have y0: "0 \<le> y" unfolding y_def using q0 by simp
  have y1: "y \<le> 100" unfolding y_def using q1 by simp
  have "\<bar>q - r\<bar> \<le> r / 2 ^ 53" unfolding q_def by (rule to_double_near [OF r0])
  also have "r / 2 ^ 53 = r * u" unfolding u_def by simp
  also have "r * u \<le> 1 * u" using r1 u0 by (intro mult_right_mono) simp_all
  finally have e1: "\<bar>q - r\<bar> \<le> u" by simp
  have "\<bar>x - y\<bar> \<le> y / 2 ^ 53" unfolding x_def by (rule to_double_near [OF y0])
  also have "y / 2 ^ 53 = y * u" unfolding u_def by simp
  also have "y * u \<le> 100 * u" using y1 u0 by (intro mult_right_mono) simp_all
  finally have e2: "\<bar>x - y\<bar> \<le> 100 * u" .
  note y_def
  moreover have "- u \<le> q - r" and "q - r \<le> u"
    using e1 by (simp_all add: abs_le_iff)
  moreover have "- (100 * u) \<le> x - y" and "x - y \<le> 100 * u"
    using e2 by (simp_all add: abs_le_iff)
  ultimately have "- (200 * u) \<le> x - r * 100 \<and> x - r * 100 \<le> 200 * u"
    by linarith
  then have "\<bar>x - r * 100\<bar> \<le> 200 * u" by (simp add: abs_le_iff)
  then show ?thesis unfolding x_def y_def q_def r_def u_def by simp
qed

text \<open>
  The decimal that \<open>round(_, 2)\<close> picks is a nearest one to the exact percentage as long
  as the counters fit in 32 bits, the width of the columns.
\<close>

lemma two_places_nearest:
  fixes p n :: int
  assumes p: "0 \<le> p" and n: "0 < n" and pn: "p \<le> n" and small: "n < 2 ^ 32"
  shows "\<bar>of_int (round_half_even (to_double (to_double (of_int p / of_int n) * 100) * 100)) / 100
           - of_int p / of_int n * 100\<bar> \<le> (1::rat) / 200"
proof -
  define u :: rat where "u = 1 / 2 ^ 53"
  define r :: rat where "r = of_int p / of_int n"
  define x where "x = to_double (to_double r * 100)"
  define k where "k = round_half_even (x * 100)"
  define D where "D = k * n - 10000 * p"
  have u0: "0 < u" unfolding u_def by simp
  have nr: "(0::rat) < of_int n" using n by simp
  have rn: "r * of_int n = of_int p" unfolding r_def using nr by simp
  have e3: "\<bar>x - r * 100\<bar> \<le> 200 * u"
    using percentage_error [OF p n pn] unfolding x_def r_def u_def by simp
  have e4: "\<bar>of_int k - x * 100\<bar> \<le> 1 / 2"
    unfolding k_def by (rule round_half_even_near)
  have "of_int k - r * 10000 = (of_int k - x * 100) + 100 * (x - r * 100)" by simp
  then have e5: "\<bar>of_int k - r * 10000\<bar> \<le> 1 / 2 + 20000 * u" using e3 e4 by linarith
  have Dr: "(of_int D :: rat) = (of_int k - r * 10000) * of_int n"
    unfolding D_def using rn by (simp add: algebra_simps)
  have "\<bar>of_int D :: rat\<bar> = \<bar>of_int k - r * 10000\<bar> * of_int n"
    unfolding Dr using nr by (simp add: abs_mult)
  also have "\<dots> \<le> (1 / 2 + 20000 * u) * of_int n"
    using e5 nr by (intro mult_right_mono) simp_all
  finally have e6: "2 * \<bar>of_int D :: rat\<bar> \<le> of_int n + 40000 * u * of_int n"
    by (simp add: algebra_simps)
  have "(of_int n :: rat) < of_int (2 ^ 32)" using small by (simp only: of_int_less_iff)
  then have "40000 * u * of_int n < 40000 * u * of_int (2 ^ 32)"
    using u0 by (intro mult_strict_left_mono) simp_all
  also have "40000 * u * of_int (2 ^ 32) < 1" unfolding u_def by simp
  finally have "2 * \<bar>of_int D :: rat\<bar> < of_int n + 1" using e6 by linarith
  then have "(of_int (2 * \<bar>D\<bar>) :: rat) < of_int (n + 1)" by simp
  then have "2 * \<bar>D\<bar> < n + 1" by (simp only: of_int_less_iff)
  then have "2 * \<bar>D\<bar> \<le> n" by simp
  then have "(of_int (2 * \<bar>D\<bar>) :: rat) \<le> of_int n" by (simp only: of_int_le_iff)
  then have e7: "\<bar>of_int D :: rat\<bar> \<le> of_int n / 2" by simp
  have "of_int k / 100 - r * 100 = of_int D / (100 * of_int n)"
    unfolding Dr using nr by (simp add: field_simps)
  then have "\<bar>of_int k / 100 - r * 100\<bar> = \<bar>of_int D :: rat\<bar> / (100 * of_int n)"
    using nr by (simp add: abs_mult)
  also have "\<dots> \<le> (of_int n / 2) / (100 * of_int n)"
    using e7 nr by (intro divide_right_mono) simp_all
  also have "\<dots> = 1 / 200" using nr by simp
  finally show ?thesis unfolding k_def x_def r_def .
qed

lemma pass_rate_value:
  "pass_rate e =
     (if passed_tests e + failed_tests e = 0 then Inr 0
      else Inr (py_round2 (to_double (to_double
             (of_int (passed_tests e) / of_int (passed_tests e + failed_tests e)) * 100))))"
  by (simp add: pass_rate_def truediv_def Let_def)

lemma pass_rate_returns:
  "(case pass_rate e of Inl m \<Rightarrow> f m | Inr rate \<Rightarrow> g rate) = g (projr (pass_rate e))"
  by (simp add: pass_rate_value)

lemma rate_2_of_3: "py_round2 (to_double (to_double (2 / 3) * 100)) = to_double (6667 / 100)"
  by code_simp

lemma rate_23_of_160: "py_round2 (to_double (to_double (23 / 160) * 100)) = to_double (1437 / 100)"
  by code_simp

lemma rate_49_of_160: "py_round2 (to_double (to_double (49 / 160) * 100)) = to_double (3063 / 100)"
  by code_simp

lemma rate_1_of_32: "py_round2 (to_double (to_double (1 / 32) * 100)) = to_double (312 / 100)"
  by code_simp

lemma double_66_67: "to_double (6667 / 100) = 4691484174324859 / 70368744177664"
  by code_simp

text \<open>
  C8. For a row with non-negative counters \<open>pass_rate\<close> raises nothing and returns a float
  \<open>r\<close>: \<open>r\<close> is 0 when \<open>passed_tests + failed_tests = 0\<close>; \<open>r\<close> lies in [0, 100]; when the
  denominator is not 0 and fits in 32 bits, \<open>r\<close> is the double nearest to a decimal \<open>k / 100\<close>
  that is at most 1/200 away from the exact \<open>passed / (passed + failed) * 100\<close>, that is,
  the double of this percentage rounded to 2 decimal places. With 2 passed and 1 failed it
  is the double 66.67. When the exact percentage lies halfway between two decimals, the
  doubles of the computation decide: 23 of 160 (14.375) gives 14.37 and 49 of 160 (30.625)
  gives 30.63, while 1 of 32 (3.125, a double itself) gives 3.12.
\<close>

theorem pass_rate_spec:
  assumes "0 \<le> passed_tests e" and "0 \<le> failed_tests e"
  shows "\<exists>r. pass_rate e = Inr r
       \<and> (passed_tests e + failed_tests e = 0 \<longrightarrow> r = 0)
       \<and> 0 \<le> r \<and> r \<le> 100
       \<and> (passed_tests e + failed_tests e \<noteq> 0 \<and> passed_tests e + failed_tests e < 2 ^ 32 \<longrightarrow>
            (\<exists>k::int. r = to_double (of_int k / 100)
               \<and> \<bar>of_int k / 100
                    - of_int (passed_tests e) / of_int (passed_tests e + failed_tests e) * 100\<bar>
                  \<le> (1::rat) / 200
               \<and> \<bar>r - of_int k / 100\<bar> \<le> 100 / 2 ^ 53))
       \<and> (passed_tests e = 2 \<and> failed_tests e = 1 \<longrightarrow> r = to_double (6667 / 100))
       \<and> (passed_tests e = 23 \<and> failed_tests e = 137 \<longrightarrow> r = to_double (1437 / 100))
       \<and> (passed_tests e = 49 \<and> failed_tests e = 111 \<longrightarrow> r = to_double (3063 / 100))
       \<and> (passed_tests e = 1 \<and> failed_tests e = 31 \<longrightarrow> r = to_double (312 / 100))"
proof -
  define p where "p = passed_tests e"
  define n where "n = passed_tests e + failed_tests e"
  define x where "x = to_double (to_double (of_int p / of_int n) * 100)"
  have pn: "0 \<le> p" "p \<le> n" using assms unfolding p_def n_def by auto
  show ?thesis
  proof (cases "n = 0")
    case True
    then have pr: "pass_rate e = Inr 0" unfolding pass_rate_value n_def by simp
    from True assms have z: "passed_tests e = 0" "failed_tests e = 0"
      unfolding n_def by linarith+
    show ?thesis
      by (rule exI [of _ 0]) (simp add: pr z)
  next
    case False
    with pn have npos: "0 < n" by simp
    define r where "r = py_round2 x"
    define k where "k = round_half_even (x * 100)"
    have pr: "pass_rate e = Inr r"
      using False unfolding pass_rate_value r_def x_def n_def p_def by simp
    have c0: "passed_tests e + failed_tests e = 0 \<longrightarrow> r = 0"
      using False unfolding n_def by simp
    have xr: "0 \<le> x \<and> x \<le> 100"
      unfolding x_def by (rule percentage_range [OF pn(1) npos pn(2)])
    then have "0 \<le> r \<and> r \<le> 100"
      unfolding r_def by (intro py_round2_range) simp_all
    then have c1: "0 \<le> r" and c2: "r \<le> 100" by simp_all
    have rk: "r = to_double (of_int k / 100)" unfolding r_def k_def py_round2_def ..
    have k0: "0 \<le> k"
      unfolding k_def using xr by (intro round_half_even_ge) simp
    have k1: "k \<le> 10000"
      unfolding k_def using xr by (intro round_half_even_le) simp
    have d0: "(0::rat) \<le> of_int k / 100" using k0 by simp
    have "(of_int k :: rat) \<le> of_int 10000" using k1 by (simp only: of_int_le_iff)
    then have d1: "(of_int k :: rat) / 100 \<le> 100" by simp
    have "\<bar>r - of_int k / 100\<bar> \<le> (of_int k / 100) / 2 ^ 53"
      unfolding rk by (rule to_double_near [OF d0])
    also have "\<dots> \<le> 100 / 2 ^ 53" using d1 by (intro divide_right_mono) simp_all
    finally have far: "\<bar>r - of_int k / 100\<bar> \<le> 100 / 2 ^ 53" .
    have c3: "passed_tests e + failed_tests e \<noteq> 0 \<and> passed_tests e + failed_tests e < 2 ^ 32 \<longrightarrow>
            (\<exists>k::int. r = to_double (of_int k / 100)
               \<and> \<bar>of_int k / 100
                    - of_int (passed_tests e) / of_int (passed_tests e + failed_tests e) * 100\<bar>
                  \<le> (1::rat) / 200
               \<and> \<bar>r - of_int k / 100\<bar> \<le> 100 / 2 ^ 53)"
    proof
      assume "passed_tests e + failed_tests e \<noteq> 0 \<and> passed_tests e + failed_tests e < 2 ^ 32"
      then have small: "n < 2 ^ 32" unfolding n_def by simp
      have "\<bar>of_int k / 100 - of_int p / of_int n * 100\<bar> \<le> (1::rat) / 200"
        unfolding k_def x_def by (rule two_places_nearest [OF pn(1) npos pn(2) small])
      then have near: "\<bar>of_int k / 100
                    - of_int (passed_tests e) / of_int (passed_tests e + failed_tests e) * 100\<bar>
                  \<le> (1::rat) / 200"
        unfolding p_def n_def .
      show "\<exists>k::int. r = to_double (of_int k / 100)
               \<and> \<bar>of_int k / 100
                    - of_int (passed_tests e) / of_int (passed_tests e + failed_tests e) * 100\<bar>
                  \<le> (1::rat) / 200
               \<and> \<bar>r - of_int k / 100\<bar> \<le> 100 / 2 ^ 53"
        by (rule exI [of _ k]) (intro conjI rk near far)
    qed
    have c4: "passed_tests e = 2 \<and> failed_tests e = 1 \<longrightarrow> r = to_double (6667 / 100)"
      unfolding r_def x_def p_def n_def by (simp add: rate_2_of_3)
    have c5: "passed_tests e = 23 \<and> failed_tests e = 137 \<longrightarrow> r = to_double (1437 / 100)"
      unfolding r_def x_def p_def n_def by (simp add: rate_23_of_160)
    have c6: "passed_tests e = 49 \<and> failed_tests e = 111 \<longrightarrow> r = to_double (3063 / 100)"
      unfolding r_def x_def p_def n_def by (simp add: rate_49_of_160)
    have c7: "passed_tests e = 1 \<and> failed_tests e = 31 \<longrightarrow> r = to_double (312 / 100)"
      unfolding r_def x_def p_def n_def by (simp add: rate_1_of_32)
    show ?thesis
      by (rule exI [of _ r]) (intro conjI pr c0 c1 c2 c3 c4 c5 c6 c7)
  qed
qed

theorem pass_rate_spec_witness:
  "pass_rate (counted_row 2 1) = Inr (to_double (6667 / 100))
   \<and> pass_rate (counted_row 0 0) = Inr 0
   \<and> pass_rate (counted_row 23 137) = Inr (to_double (1437 / 100))
   \<and> pass_rate (counted_row 49 111) = Inr (to_double (3063 / 100))
   \<and> pass_rate (counted_row 1 31) = Inr (to_double (312 / 100))"
proof (intro conjI)
  show "pass_rate (counted_row 2 1) = Inr (to_double (6667 / 100))"
    using pass_rate_spec [of "counted_row 2 1"] by (clarsimp simp: counted_row_def)
  show "pass_rate (counted_row 0 0) = Inr 0"
    using pass_rate_spec [of "counted_row 0 0"] by (clarsimp simp: counted_row_def)
  show "pass_rate (counted_row 23 137) = Inr (to_double (1437 / 100))"
    using pass_rate_spec [of "counted_row 23 137"] by (clarsimp simp: counted_row_def)
  show "pass_rate (counted_row 49 111) = Inr (to_double (3063 / 100))"
    using pass_rate_spec [of "counted_row 49 111"] by (clarsimp simp: counted_row_def)
  show "pass_rate (counted_row 1 31) = Inr (to_double (312 / 100))"
    using pass_rate_spec [of "counted_row 1 31"] by (clarsimp simp: counted_row_def)
qed

subsection \<open>The cancellation task\<close>

lemma str_nat_7: "str_nat 7 = ''7''"
  by (simp add: str_nat.simps)

text \<open>
  C9. For an execution that is neither RUNNING nor QUEUED, \<open>_cancel_execution_async\<close>
  raises nothing: it returns the dict that says the execution is not running and leaves the
  whole world (the row, the result rows, the cache) as it was. For an execution that is
  RUNNING or QUEUED it sets the status to CANCELLED and \<open>completed_at\<close> to the current
  time, creates no result row and, when the cache does not raise, returns success with the
  snapshot deleted.
\<close>

theorem cancel_execution_spec:
  assumes "executions w eid = Some e" and "exec_id e = eid"
  shows "(status e \<noteq> RUNNING \<and> status e \<noteq> QUEUED \<longrightarrow>
            cancel_execution_async ev eid w =
              (Inr [(''success'', JBool False), (''error'', JStr ''Execution is not running'')], w))
       \<and> (status e = RUNNING \<or> status e = QUEUED \<longrightarrow>
            executions (snd (cancel_execution_async ev eid w)) eid =
              Some (e\<lparr>status := CANCELLED, completed_at := Some (clock w)\<rparr>)
            \<and> results (snd (cancel_execution_async ev eid w)) = results w
            \<and> (cache_raises ev AtCancel = None \<longrightarrow>
                 fst (cancel_execution_async ev eid w) =
                   Inr [(''success'', JBool True), (''execution_id'', JInt (int eid))]
                 \<and> cache (snd (cancel_execution_async ev eid w))
                      (execution_status (str_nat eid)) = None))"
  using assms
  by (auto simp: cancel_execution_async_def delete_def commit_def tick_def Let_def
           split: option.splits)

theorem cancel_execution_spec_witness:
  "cancel_execution_async (quiet_env (\<lambda>_. Ran True)) 7 (example_world COMPLETED [] []) =
     (Inr [(''success'', JBool False), (''error'', JStr ''Execution is not running'')],
      example_world COMPLETED [] [])
   \<and> executions (snd (cancel_execution_async (quiet_env (\<lambda>_. Ran True)) 7
         (example_world RUNNING [] []))) 7 =
       Some ((example_execution RUNNING)\<lparr>status := CANCELLED, completed_at := Some 100\<rparr>)
   \<and> cache (snd (cancel_execution_async (quiet_env (\<lambda>_. Ran True)) 7
         (example_world RUNNING [] []))) ''execution:status:7'' = None
   \<and> cache (example_world RUNNING [] []) ''execution:status:7'' \<noteq> None"
  using cancel_execution_spec [of "example_world COMPLETED [] []" 7 "example_execution COMPLETED"
          "quiet_env (\<lambda>_. Ran True)"]
        cancel_execution_spec [of "example_world RUNNING [] []" 7 "example_execution RUNNING"
          "quiet_env (\<lambda>_. Ran True)"]
  by (simp add: example_world_def example_execution_def quiet_env_def execution_status_def
        str_nat_7)

subsection \<open>One test case\<close>

lemma execute_single_test_world:
  "snd (execute_single_test ev idx ex tc w) =
     w\<lparr>clock := Suc (Suc (clock w)),
       results := results w @ [fst (execute_single_test ev idx ex tc w)]\<rparr>"
  by (simp add: execute_single_test_def tick_def Let_def)

lemma execute_single_test_ids:
  "execution_id (fst (execute_single_test ev idx ex tc w)) = exec_id ex"
  "test_case_id (fst (execute_single_test ev idx ex tc w)) = tc_id tc"
  by (simp_all add: execute_single_test_def Let_def split: test_outcome.splits)

lemma execute_single_test_status:
  "r_status (fst (execute_single_test ev idx ex tc w)) =
     (case unit_of_work ev idx of
        Ran passed \<Rightarrow> if passed then R_PASSED else R_FAILED
      | Raises m \<Rightarrow> R_ERROR)"
  by (simp add: execute_single_test_def Let_def split: test_outcome.splits)

lemma execute_single_test_error_message:
  "r_error_message (fst (execute_single_test ev idx ex tc w)) =
     (case unit_of_work ev idx of
        Ran passed \<Rightarrow> if passed then None else Some ''Test assertion failed''
      | Raises m \<Rightarrow> Some m)"
  by (simp add: execute_single_test_def Let_def split: test_outcome.splits)

lemma execute_single_test_timing:
  "r_completed_at (fst (execute_single_test ev idx ex tc w)) = Some (Suc (clock w))"
  "r_duration_seconds (fst (execute_single_test ev idx ex tc w)) = Some 1"
  by (simp_all add: execute_single_test_def Let_def tick_def seconds_between_def
        split: test_outcome.splits)

lemma execute_single_test_terminal:
  "r_status (fst (execute_single_test ev idx ex tc w)) \<in> {R_PASSED, R_FAILED, R_ERROR}"
  by (simp add: execute_single_test_status split: test_outcome.splits)

subsection \<open>The loop\<close>

lemma run_tests_quiet:
  assumes quiet: "\<And>i. cache_raises ev (AtProgress i) = None"
  shows "\<exists>rows w'. run_tests ev ex n idx tcs acc w = Inr (acc @ rows, w')
     \<and> results w' = results w @ rows
     \<and> length rows = length tcs
     \<and> (\<forall>k<length tcs.
           execution_id (rows ! k) = exec_id ex
         \<and> test_case_id (rows ! k) = tc_id (tcs ! k)
         \<and> r_status (rows ! k) =
             (case unit_of_work ev (idx + k) of
                Ran passed \<Rightarrow> if passed then R_PASSED else R_FAILED
              | Raises m \<Rightarrow> R_ERROR)
         \<and> r_error_message (rows ! k) =
             (case unit_of_work ev (idx + k) of
                Ran passed \<Rightarrow> if passed then None else Some ''Test assertion failed''
              | Raises m \<Rightarrow> Some m)
         \<and> r_completed_at (rows ! k) \<noteq> None
         \<and> r_duration_seconds (rows ! k) \<noteq> None)
     \<and> executions w' = executions w
     \<and> execution_logs w' = execution_logs w
     \<and> test_cases w' = test_cases w
     \<and> stdout w' = stdout w"
proof (induction tcs arbitrary: idx acc w)
  case Nil
  show ?case by simp
next
  case (Cons tc rest)
  define r where "r = fst (execute_single_test ev idx ex tc w)"
  define w1 where "w1 = snd (execute_single_test ev idx ex tc w)"
  define w2 where "w2 = w1\<lparr>cache := (cache w1)(execution_status (str_nat (exec_id ex)) \<mapsto>
      [(''status'', JStr (ExecutionStatus_value RUNNING)),
       (''progress'', JNum (to_double (to_double (of_nat (idx + 1) / of_nat n) * 100))),
       (''completed'', JInt (int (idx + 1))),
       (''total'', JInt (int n))])\<rparr>"
  have w1: "w1 = w\<lparr>clock := Suc (Suc (clock w)), results := results w @ [r]\<rparr>"
    unfolding w1_def r_def by (rule execute_single_test_world)
  have step: "run_tests ev ex n idx (tc # rest) acc w =
      run_tests ev ex n (idx + 1) rest (acc @ [r]) w2"
    using quiet [of idx]
    by (simp add: set_json_def w2_def w1_def r_def split: prod.splits)
  from Cons.IH [of "idx + 1" "acc @ [r]" w2]
  obtain rows w' where
    run: "run_tests ev ex n (idx + 1) rest (acc @ [r]) w2 = Inr ((acc @ [r]) @ rows, w')"
    and res: "results w' = results w2 @ rows"
    and len: "length rows = length rest"
    and each: "\<forall>k<length rest.
           execution_id (rows ! k) = exec_id ex
         \<and> test_case_id (rows ! k) = tc_id (rest ! k)
         \<and> r_status (rows ! k) =
             (case unit_of_work ev (idx + 1 + k) of
                Ran passed \<Rightarrow> if passed then R_PASSED else R_FAILED
              | Raises m \<Rightarrow> R_ERROR)
         \<and> r_error_message (rows ! k) =
             (case unit_of_work ev (idx + 1 + k) of
                Ran passed \<Rightarrow> if passed then None else Some ''Test assertion failed''
              | Raises m \<Rightarrow> Some m)
         \<and> r_completed_at (rows ! k) \<noteq> None
         \<and> r_duration_seconds (rows ! k) \<noteq> None"
    and frame: "executions w' = executions w2" "execution_logs w' = execution_logs w2"
      "test_cases w' = test_cases w2" "stdout w' = stdout w2"
    by blast
  have head: "execution_id r = exec_id ex \<and> test_case_id r = tc_id tc
         \<and> r_status r =
             (case unit_of_work ev idx of
                Ran passed \<Rightarrow> if passed then R_PASSED else R_FAILED
              | Raises m \<Rightarrow> R_ERROR)
         \<and> r_error_message r =
             (case unit_of_work ev idx of
                Ran passed \<Rightarrow> if passed then None else Some ''Test assertion failed''
              | Raises m \<Rightarrow> Some m)
         \<and> r_completed_at r \<noteq> None \<and> r_duration_seconds r \<noteq> None"
    unfolding r_def
    by (simp add: execute_single_test_ids execute_single_test_status
          execute_single_test_error_message execute_single_test_timing)
  have nth: "\<forall>k<length (tc # rest).
           execution_id ((r # rows) ! k) = exec_id ex
         \<and> test_case_id ((r # rows) ! k) = tc_id ((tc # rest) ! k)
         \<and> r_status ((r # rows) ! k) =
             (case unit_of_work ev (idx + k) of
                Ran passed \<Rightarrow> if passed then R_PASSED else R_FAILED
              | Raises m \<Rightarrow> R_ERROR)
         \<and> r_error_message ((r # rows) ! k) =
             (case unit_of_work ev (idx + k) of
                Ran passed \<Rightarrow> if passed then None else Some ''Test assertion failed''
              | Raises m \<Rightarrow> Some m)
         \<and> r_completed_at ((r # rows) ! k) \<noteq> None
         \<and> r_duration_seconds ((r # rows) ! k) \<noteq> None"
  proof (intro allI impI)
    fix k assume k: "k < length (tc # rest)"
    show "execution_id ((r # rows) ! k) = exec_id ex
         \<and> test_case_id ((r # rows) ! k) = tc_id ((tc # rest) ! k)
         \<and> r_status ((r # rows) ! k) =
             (case unit_of_work ev (idx + k) of
                Ran passed \<Rightarrow> if passed then R_PASSED else R_FAILED
              | Raises m \<Rightarrow> R_ERROR)
         \<and> r_error_message ((r # rows) ! k) =
             (case unit_of_work ev (idx + k) of
                Ran passed \<Rightarrow> if passed then None else Some ''Test assertion failed''
              | Raises m \<Rightarrow> Some m)
         \<and> r_completed_at ((r # rows) ! k) \<noteq> None
         \<and> r_duration_seconds ((r # rows) ! k) \<noteq> None"
    proof (cases k)
      case 0
      with head show ?thesis by simp
    next
      case (Suc j)
      with k have "j < length rest" by simp
      with each have "execution_id (rows ! j) = exec_id ex
         \<and> test_case_id (rows ! j) = tc_id (rest ! j)
         \<and> r_status (rows ! j) =
             (case unit_of_work ev (idx + 1 + j) of
                Ran passed \<Rightarrow> if passed then R_PASSED else R_FAILED
              | Raises m \<Rightarrow> R_ERROR)
         \<and> r_error_message (rows ! j) =
             (case unit_of_work ev (idx + 1 + j) of
                Ran passed \<Rightarrow> if passed then None else Some ''Test assertion failed''
              | Raises m \<Rightarrow> Some m)
         \<and> r_completed_at (rows ! j) \<noteq> None
         \<and> r_duration_seconds (rows ! j) \<noteq> None" by blast
      with Suc show ?thesis by simp
    qed
  qed
  have "run_tests ev ex n idx (tc # rest) acc w = Inr (acc @ (r # rows), w')"
    using step run by simp
  moreover have "results w' = results w @ (r # rows)"
    using res by (simp add: w2_def w1)
  moreover have "length (r # rows) = length (tc # rest)"
    using len by simp
  moreover have "executions w' = executions w" "execution_logs w' = execution_logs w"
      "test_cases w' = test_cases w" "stdout w' = stdout w"
    using frame by (simp_all add: w2_def w1)
  ultimately show ?case using nth by blast
qed

lemma run_tests_any:
  "\<exists>rows w'.
      (run_tests ev ex n idx tcs acc w = Inr (acc @ rows, w') \<and> length rows = length tcs
       \<or> (\<exists>m. run_tests ev ex n idx tcs acc w = Inl (m, w')))
     \<and> results w' = results w @ rows
     \<and> length rows \<le> length tcs
     \<and> (\<forall>r\<in>set rows. execution_id r = exec_id ex
            \<and> r_status r \<in> {R_PASSED, R_FAILED, R_ERROR})
     \<and> executions w' = executions w
     \<and> execution_logs w' = execution_logs w
     \<and> test_cases w' = test_cases w"
proof (induction tcs arbitrary: idx acc w)
  case Nil
  show ?case by simp
next
  case (Cons tc rest)
  define r where "r = fst (execute_single_test ev idx ex tc w)"
  define w1 where "w1 = snd (execute_single_test ev idx ex tc w)"
  have w1: "w1 = w\<lparr>clock := Suc (Suc (clock w)), results := results w @ [r]\<rparr>"
    unfolding w1_def r_def by (rule execute_single_test_world)
  have head: "execution_id r = exec_id ex \<and> r_status r \<in> {R_PASSED, R_FAILED, R_ERROR}"
    unfolding r_def using execute_single_test_terminal [of ev idx ex tc w]
    by (simp add: execute_single_test_ids)
  show ?case
  proof (cases "cache_raises ev (AtProgress idx)")
    case (Some m)
    then have "run_tests ev ex n idx (tc # rest) acc w = Inl (m, w1)"
      by (simp add: set_json_def w1_def split: prod.splits)
    moreover have "results w1 = results w @ [r]" "executions w1 = executions w"
      "execution_logs w1 = execution_logs w" "test_cases w1 = test_cases w"
      by (simp_all add: w1)
    ultimately show ?thesis using head
      by (intro exI [of _ "[r]"] exI [of _ w1]) simp
  next
    case None
    define w2 where "w2 = w1\<lparr>cache := (cache w1)(execution_status (str_nat (exec_id ex)) \<mapsto>
      [(''status'', JStr (ExecutionStatus_value RUNNING)),
       (''progress'', JNum (to_double (to_double (of_nat (idx + 1) / of_nat n) * 100))),
       (''completed'', JInt (int (idx + 1))),
       (''total'', JInt (int n))])\<rparr>"
    have step: "run_tests ev ex n idx (tc # rest) acc w =
        run_tests ev ex n (idx + 1) rest (acc @ [r]) w2"
      using None by (simp add: set_json_def w2_def w1_def r_def split: prod.splits)
    from Cons.IH [of "idx + 1" "acc @ [r]" w2]
    obtain rows w' where
      run: "run_tests ev ex n (idx + 1) rest (acc @ [r]) w2 = Inr ((acc @ [r]) @ rows, w')
              \<and> length rows = length rest
            \<or> (\<exists>m. run_tests ev ex n (idx + 1) rest (acc @ [r]) w2 = Inl (m, w'))"
      and res: "results w' = results w2 @ rows"
      and len: "length rows \<le> length rest"
      and each: "\<forall>r\<in>set rows. execution_id r = exec_id ex
            \<and> r_status r \<in> {R_PASSED, R_FAILED, R_ERROR}"
      and frame: "executions w' = executions w2" "execution_logs w' = execution_logs w2"
        "test_cases w' = test_cases w2"
      by blast
    have "run_tests ev ex n idx (tc # rest) acc w = Inr (acc @ (r # rows), w')
            \<and> length (r # rows) = length (tc # rest)
          \<or> (\<exists>m. run_tests ev ex n idx (tc # rest) acc w = Inl (m, w'))"
      using run unfolding step by auto
    moreover have "results w' = results w @ (r # rows)"
      using res by (simp add: w2_def w1)
    moreover have "length (r # rows) \<le> length (tc # rest)"
      using len by simp
    moreover have "\<forall>x\<in>set (r # rows). execution_id x = exec_id ex
            \<and> r_status x \<in> {R_PASSED, R_FAILED, R_ERROR}"
      using head each by simp
    moreover have "executions w' = executions w" "execution_logs w' = execution_logs w"
      "test_cases w' = test_cases w"
      using frame by (simp_all add: w2_def w1)
    ultimately show ?thesis by blast
  qed
qed

text \<open>The test case ids of the new rows are those of the target set, in its order.\<close>

lemma rows_follow_target:
  assumes "length rows = length tcs"
    and "\<forall>k<length tcs. test_case_id (rows ! k) = tc_id (tcs ! k)"
  shows "map test_case_id rows = map tc_id tcs"
  using assms by (simp add: list_eq_iff_nth_eq)

lemma rows_terminal:
  assumes len: "length rows = n"
    and each: "\<forall>k<n. r_status (rows ! k) =
             (case unit_of_work ev k of
                Ran passed \<Rightarrow> if passed then R_PASSED else R_FAILED
              | Raises m \<Rightarrow> R_ERROR)"
  shows "\<forall>r\<in>set rows. r_status r \<in> {R_PASSED, R_FAILED, R_ERROR}"
proof
  fix r assume "r \<in> set rows"
  then obtain k where "k < n" and "r = rows ! k"
    using len by (auto simp: in_set_conv_nth)
  with each show "r_status r \<in> {R_PASSED, R_FAILED, R_ERROR}"
    by (auto split: test_outcome.splits)
qed

subsection \<open>Counting results\<close>

lemma count_status_length:
  "count_status st rs = int (length (filter (\<lambda>r. r_status r = st) rs))"
  unfolding count_status_def by (induction rs) auto

lemma count_status_total:
  "count_status R_PASSED rs + count_status R_FAILED rs + count_status R_SKIPPED rs
     + count_status R_BLOCKED rs + count_status R_ERROR rs + count_status R_PENDING rs
   = int (length rs)"
proof (induction rs)
  case Nil
  show ?case by (simp add: count_status_length)
next
  case (Cons r rs)
  then show ?case by (cases "r_status r") (simp_all add: count_status_length)
qed

lemma count_status_terminal:
  assumes "\<forall>r\<in>set rs. r_status r \<in> {R_PASSED, R_FAILED, R_ERROR}"
  shows "count_status R_PASSED rs + count_status R_FAILED rs + count_status R_SKIPPED rs
     + count_status R_BLOCKED rs + count_status R_ERROR rs = int (length rs)"
proof -
  have "filter (\<lambda>r. r_status r = R_PENDING) rs = []"
    using assms by (auto simp: filter_empty_conv)
  then have "count_status R_PENDING rs = 0"
    by (simp add: count_status_length)
  with count_status_total [of rs] show ?thesis by simp
qed

lemma results_of_append:
  "results w' = results w @ rows \<Longrightarrow> \<forall>r\<in>set rows. execution_id r = eid \<Longrightarrow>
   results_of eid w' = results_of eid w @ rows"
  by (simp add: results_of_def)

lemma length_filter_count_list:
  "length (filter (\<lambda>r. f r = c) rows) = count_list (map f rows) c"
  by (induction rows) auto

lemma terminal_results_append:
  assumes res: "results w' = results w @ rows"
    and own: "\<forall>r\<in>set rows. execution_id r = eid \<and> r_status r \<noteq> R_PENDING"
  shows "length (terminal_results eid c w') =
     length (terminal_results eid c w) + count_list (map test_case_id rows) c"
proof -
  have "filter (\<lambda>r. execution_id r = eid \<and> test_case_id r = c \<and> r_status r \<noteq> R_PENDING) rows
      = filter (\<lambda>r. test_case_id r = c) rows"
    using own by (intro filter_cong) auto
  then show ?thesis
    by (simp add: terminal_results_def res length_filter_count_list)
qed

subsection \<open>The phases of a job\<close>

lemma get_test_cases_for_execution_cong:
  "test_cases w' = test_cases w \<Longrightarrow> test_suite_id e' = test_suite_id e \<Longrightarrow>
   project_id e' = project_id e \<Longrightarrow>
   get_test_cases_for_execution w' e' = get_test_cases_for_execution w e"
  by (simp add: get_test_cases_for_execution_def split: option.splits)

lemma update_execution_summary_eq:
  "update_execution_summary w e =
     (e\<lparr>passed_tests := count_status R_PASSED (results_of (exec_id e) w),
        failed_tests := count_status R_FAILED (results_of (exec_id e) w),
        skipped_tests := count_status R_SKIPPED (results_of (exec_id e) w),
        blocked_tests := count_status R_BLOCKED (results_of (exec_id e) w),
        error_tests := count_status R_ERROR (results_of (exec_id e) w)\<rparr>,
      w\<lparr>executions := (executions w)(exec_id e \<mapsto>
        e\<lparr>passed_tests := count_status R_PASSED (results_of (exec_id e) w),
          failed_tests := count_status R_FAILED (results_of (exec_id e) w),
          skipped_tests := count_status R_SKIPPED (results_of (exec_id e) w),
          blocked_tests := count_status R_BLOCKED (results_of (exec_id e) w),
          error_tests := count_status R_ERROR (results_of (exec_id e) w)\<rparr>)\<rparr>)"
  by (simp add: update_execution_summary_def Let_def commit_def)

text \<open>The row that the transition to COMPLETED commits.\<close>

lemma complete_execution_row:
  "\<exists>e' w'.
     (case complete_execution ev e rs w of
        Inl (m, e2, w2) \<Rightarrow> cache_raises ev AtCompleted = Some m \<and> e2 = e' \<and> w2 = w'
      | Inr (ret, w2) \<Rightarrow> cache_raises ev AtCompleted = None
          \<and> (\<exists>c. w2 = store_execution_logs ev (exec_id e) rs (w'\<lparr>cache := c\<rparr>)))
   \<and> executions w' = (executions w)(exec_id e \<mapsto> e')
   \<and> results w' = results w
   \<and> test_cases w' = test_cases w
   \<and> execution_logs w' = execution_logs w
   \<and> stdout w' = stdout w
   \<and> e' = e\<lparr>passed_tests := count_status R_PASSED (results_of (exec_id e) w),
        failed_tests := count_status R_FAILED (results_of (exec_id e) w),
        skipped_tests := count_status R_SKIPPED (results_of (exec_id e) w),
        blocked_tests := count_status R_BLOCKED (results_of (exec_id e) w),
        error_tests := count_status R_ERROR (results_of (exec_id e) w),
        status := COMPLETED, completed_at := Some (clock w),
        duration_seconds := seconds_between (Some (clock w)) (started_at e)\<rparr>"
  by (cases "cache_raises ev AtCompleted")
     (auto simp: complete_execution_def update_execution_summary_eq Let_def commit_def
        tick_def set_json_def pass_rate_returns)

lemma store_execution_logs_frame:
  "executions (store_execution_logs ev eid rs w) = executions w"
  "results (store_execution_logs ev eid rs w) = results w"
  "test_cases (store_execution_logs ev eid rs w) = test_cases w"
  "cache (store_execution_logs ev eid rs w) = cache w"
  by (simp_all add: store_execution_logs_def tick_def Let_def split: option.splits)

lemma store_execution_logs_entry:
  "execution_logs (store_execution_logs ev eid rs w) =
     (case log_raises ev of
        Some m \<Rightarrow> execution_logs w
      | None \<Rightarrow> execution_logs w @
          [\<lparr>log_execution_id = eid, log_timestamp = clock w, results_count = length rs,
            log_results = map log_result_of rs\<rparr>])"
  by (simp add: store_execution_logs_def tick_def Let_def split: option.splits)

lemma store_execution_logs_stdout:
  "stdout (store_execution_logs ev eid rs w) =
     (case log_raises ev of
        Some m \<Rightarrow> stdout w @ [''Failed to store execution logs: '' @ m]
      | None \<Rightarrow> stdout w)"
  by (simp add: store_execution_logs_def tick_def Let_def split: option.splits)

lemma except_handler_row:
  "\<exists>m'. fst (except_handler ev m e w) = Inl m'"
  "executions (snd (except_handler ev m e w)) =
     (executions w)(exec_id e \<mapsto>
        e\<lparr>status := FAILED, error_message := Some m, completed_at := Some (clock w)\<rparr>)"
  "results (snd (except_handler ev m e w)) = results w"
  "execution_logs (snd (except_handler ev m e w)) = execution_logs w"
  "test_cases (snd (except_handler ev m e w)) = test_cases w"
  by (simp_all add: except_handler_def Let_def commit_def tick_def set_json_def
        split: option.splits)

lemma try_body_empty:
  assumes "get_test_cases_for_execution w e = []"
  shows "try_body ev e w =
     Inr ([(''success'', JBool True), (''total_tests'', JInt 0)],
          commit (e\<lparr>status := COMPLETED, completed_at := Some (clock w), total_tests := 0\<rparr>)
            (tick w))"
  using assms by (simp add: try_body_def Let_def)

lemma try_body_nonempty:
  assumes "get_test_cases_for_execution w e \<noteq> []"
  shows "try_body ev e w =
     (case run_tests ev (e\<lparr>total_tests := int (length (get_test_cases_for_execution w e))\<rparr>)
             (length (get_test_cases_for_execution w e)) 0
             (get_test_cases_for_execution w e) []
             (commit (e\<lparr>total_tests := int (length (get_test_cases_for_execution w e))\<rparr>) w) of
        Inl (m, w2) \<Rightarrow>
          Inl (m, e\<lparr>total_tests := int (length (get_test_cases_for_execution w e))\<rparr>, w2)
      | Inr (rs, w2) \<Rightarrow>
          complete_execution ev
            (e\<lparr>total_tests := int (length (get_test_cases_for_execution w e))\<rparr>) rs w2)"
  using assms by (simp add: try_body_def Let_def)

text \<open>The entry point up to the \<open>try\<close>.\<close>

lemma entry_not_found:
  "executions w eid = None \<Longrightarrow>
   execute_test_suite_async ev eid task_id w =
     (Inr [(''success'', JBool False), (''error'', JStr ''Execution not found'')], w)"
  by (simp add: execute_test_suite_async_def)

lemma entry_first_write_raises:
  "executions w eid = Some e \<Longrightarrow> cache_raises ev AtRunning = Some m \<Longrightarrow>
   execute_test_suite_async ev eid task_id w = (Inl m, snd (mark_running e task_id w))"
  by (simp add: execute_test_suite_async_def set_json_def split: prod.splits)

lemma entry_try:
  "executions w eid = Some e \<Longrightarrow> cache_raises ev AtRunning = None \<Longrightarrow>
   execute_test_suite_async ev eid task_id w =
     (case try_body ev (fst (mark_running e task_id w))
             ((snd (mark_running e task_id w))\<lparr>cache :=
                (cache w)(execution_status (str_nat eid) \<mapsto>
                  [(''status'', JStr ''running''), (''started_at'', JIso (clock w)),
                   (''progress'', JInt 0)])\<rparr>) of
        Inr (ret, w3) \<Rightarrow> (Inr ret, w3)
      | Inl (m, e2, w3) \<Rightarrow> except_handler ev m e2 w3)"
  by (simp add: execute_test_suite_async_def set_json_def mark_running_def Let_def
        commit_def tick_def)

lemma mark_running_eq:
  "fst (mark_running e task_id w) =
     e\<lparr>status := RUNNING, started_at := Some (clock w), celery_task_id := Some task_id\<rparr>"
  "snd (mark_running e task_id w) =
     w\<lparr>clock := Suc (clock w),
       executions := (executions w)(exec_id e \<mapsto>
         e\<lparr>status := RUNNING, started_at := Some (clock w),
           celery_task_id := Some task_id\<rparr>)\<rparr>"
  by (simp_all add: mark_running_def Let_def commit_def tick_def)

subsection \<open>A job whose cache writes succeed\<close>

lemma run_quiet:
  assumes ex: "executions w eid = Some e" and id: "exec_id e = eid"
    and quiet: "\<forall>s. cache_raises ev s = None"
    and ne: "get_test_cases_for_execution w e \<noteq> []"
  shows "\<exists>ret rows e' w'.
      execute_test_suite_async ev eid task_id w = (Inr ret, w')
    \<and> executions w' = (executions w)(eid \<mapsto> e')
    \<and> results w' = results w @ rows
    \<and> length rows = length (get_test_cases_for_execution w e)
    \<and> (\<forall>k<length (get_test_cases_for_execution w e).
           execution_id (rows ! k) = eid
         \<and> test_case_id (rows ! k) = tc_id (get_test_cases_for_execution w e ! k)
         \<and> r_status (rows ! k) =
             (case unit_of_work ev k of
                Ran passed \<Rightarrow> if passed then R_PASSED else R_FAILED
              | Raises m \<Rightarrow> R_ERROR)
         \<and> r_error_message (rows ! k) =
             (case unit_of_work ev k of
                Ran passed \<Rightarrow> if passed then None else Some ''Test assertion failed''
              | Raises m \<Rightarrow> Some m)
         \<and> r_completed_at (rows ! k) \<noteq> None
         \<and> r_duration_seconds (rows ! k) \<noteq> None)
    \<and> test_cases w' = test_cases w
    \<and> execution_logs w' =
         (case log_raises ev of
            Some m \<Rightarrow> execution_logs w
          | None \<Rightarrow> execution_logs w @
              [\<lparr>log_execution_id = eid, log_timestamp = clock w' - 1,
                results_count = length rows, log_results = map log_result_of rows\<rparr>])
    \<and> status e' = COMPLETED
    \<and> started_at e' = Some (clock w)
    \<and> celery_task_id e' = Some task_id
    \<and> completed_at e' \<noteq> None
    \<and> total_tests e' = int (length (get_test_cases_for_execution w e))
    \<and> passed_tests e' = count_status R_PASSED (results_of eid w')
    \<and> failed_tests e' = count_status R_FAILED (results_of eid w')
    \<and> skipped_tests e' = count_status R_SKIPPED (results_of eid w')
    \<and> blocked_tests e' = count_status R_BLOCKED (results_of eid w')
    \<and> error_tests e' = count_status R_ERROR (results_of eid w')"
proof -
  define tcs where "tcs = get_test_cases_for_execution w e"
  define E1 where "E1 = fst (mark_running e task_id w)"
  define W2 where "W2 = (snd (mark_running e task_id w))\<lparr>cache :=
                (cache w)(execution_status (str_nat eid) \<mapsto>
                  [(''status'', JStr ''running''), (''started_at'', JIso (clock w)),
                   (''progress'', JInt 0)])\<rparr>"
  define E2 where "E2 = E1\<lparr>total_tests := int (length tcs)\<rparr>"
  define W3 where "W3 = commit E2 W2"
  from quiet have q1: "cache_raises ev AtRunning = None"
    and q2: "\<And>i. cache_raises ev (AtProgress i) = None"
    and q3: "cache_raises ev AtCompleted = None"
    by simp_all
  have entry: "execute_test_suite_async ev eid task_id w =
     (case try_body ev E1 W2 of
        Inr (ret, w3) \<Rightarrow> (Inr ret, w3)
      | Inl (m, e2, w3) \<Rightarrow> except_handler ev m e2 w3)"
    unfolding E1_def W2_def by (rule entry_try [OF ex q1])
  have gtc: "get_test_cases_for_execution W2 E1 = tcs"
    unfolding tcs_def
    by (rule get_test_cases_for_execution_cong) (simp_all add: W2_def E1_def mark_running_eq)
  with ne have ne2: "get_test_cases_for_execution W2 E1 \<noteq> []"
    by (simp add: tcs_def)
  have body: "try_body ev E1 W2 =
     (case run_tests ev E2 (length tcs) 0 tcs [] W3 of
        Inl (m, w2) \<Rightarrow> Inl (m, E2, w2)
      | Inr (rs, w2) \<Rightarrow> complete_execution ev E2 rs w2)"
    using try_body_nonempty [OF ne2, where ev = ev] unfolding gtc E2_def W3_def .
  have E2_id: "exec_id E2 = eid"
    by (simp add: E2_def E1_def mark_running_eq id)
  from run_tests_quiet [where ev = ev and ex = E2 and n = "length tcs" and idx = 0
      and tcs = tcs and acc = "[]" and w = W3, OF q2]
  obtain rows w4 where
    loop: "run_tests ev E2 (length tcs) 0 tcs [] W3 = Inr (rows, w4)"
    and res4: "results w4 = results W3 @ rows"
    and len: "length rows = length tcs"
    and each: "\<forall>k<length tcs.
           execution_id (rows ! k) = eid
         \<and> test_case_id (rows ! k) = tc_id (tcs ! k)
         \<and> r_status (rows ! k) =
             (case unit_of_work ev k of
                Ran passed \<Rightarrow> if passed then R_PASSED else R_FAILED
              | Raises m \<Rightarrow> R_ERROR)
         \<and> r_error_message (rows ! k) =
             (case unit_of_work ev k of
                Ran passed \<Rightarrow> if passed then None else Some ''Test assertion failed''
              | Raises m \<Rightarrow> Some m)
         \<and> r_completed_at (rows ! k) \<noteq> None
         \<and> r_duration_seconds (rows ! k) \<noteq> None"
    and frame4: "executions w4 = executions W3" "execution_logs w4 = execution_logs W3"
      "test_cases w4 = test_cases W3"
    unfolding E2_id by auto
  from complete_execution_row [where ev = ev and e = E2 and rs = rows and w = w4]
  obtain e' w5 where
    fin: "case complete_execution ev E2 rows w4 of
        Inl (m, e2, w2) \<Rightarrow> cache_raises ev AtCompleted = Some m \<and> e2 = e' \<and> w2 = w5
      | Inr (ret, w2) \<Rightarrow> cache_raises ev AtCompleted = None
          \<and> (\<exists>c. w2 = store_execution_logs ev (exec_id E2) rows (w5\<lparr>cache := c\<rparr>))"
    and ex5: "executions w5 = (executions w4)(exec_id E2 \<mapsto> e')"
    and res5: "results w5 = results w4"
    and tc5: "test_cases w5 = test_cases w4"
    and log5: "execution_logs w5 = execution_logs w4"
    and e': "e' = E2\<lparr>passed_tests := count_status R_PASSED (results_of (exec_id E2) w4),
        failed_tests := count_status R_FAILED (results_of (exec_id E2) w4),
        skipped_tests := count_status R_SKIPPED (results_of (exec_id E2) w4),
        blocked_tests := count_status R_BLOCKED (results_of (exec_id E2) w4),
        error_tests := count_status R_ERROR (results_of (exec_id E2) w4),
        status := COMPLETED, completed_at := Some (clock w4),
        duration_seconds := seconds_between (Some (clock w4)) (started_at E2)\<rparr>"
    by blast
  from fin q3 obtain ret c where
    comp: "complete_execution ev E2 rows w4 =
      Inr (ret, store_execution_logs ev eid rows (w5\<lparr>cache := c\<rparr>))"
    unfolding E2_id by (cases "complete_execution ev E2 rows w4") auto
  define w' where "w' = store_execution_logs ev eid rows (w5\<lparr>cache := c\<rparr>)"
  have result: "execute_test_suite_async ev eid task_id w = (Inr ret, w')"
    by (simp add: entry body loop comp w'_def)
  have exs: "executions w' = (executions w)(eid \<mapsto> e')"
    by (simp add: w'_def store_execution_logs_frame ex5 frame4 W3_def commit_def W2_def
          mark_running_eq E2_id id)
  have res: "results w' = results w @ rows"
    by (simp add: w'_def store_execution_logs_frame res5 res4 W3_def commit_def W2_def
          mark_running_eq)
  have tcs': "test_cases w' = test_cases w"
    by (simp add: w'_def store_execution_logs_frame tc5 frame4 W3_def commit_def W2_def
          mark_running_eq)
  have ro4: "results_of eid w4 = results_of eid w'"
    by (simp add: results_of_def w'_def store_execution_logs_frame res5)
  have fields: "status e' = COMPLETED" "started_at e' = Some (clock w)"
    "celery_task_id e' = Some task_id" "completed_at e' \<noteq> None"
    "total_tests e' = int (length tcs)"
    "passed_tests e' = count_status R_PASSED (results_of eid w')"
    "failed_tests e' = count_status R_FAILED (results_of eid w')"
    "skipped_tests e' = count_status R_SKIPPED (results_of eid w')"
    "blocked_tests e' = count_status R_BLOCKED (results_of eid w')"
    "error_tests e' = count_status R_ERROR (results_of eid w')"
    by (simp_all add: e' id ro4 E2_def E1_def mark_running_eq)
  have logs: "execution_logs w' =
         (case log_raises ev of
            Some m \<Rightarrow> execution_logs w
          | None \<Rightarrow> execution_logs w @
              [\<lparr>log_execution_id = eid, log_timestamp = clock w' - 1,
                results_count = length rows, log_results = map log_result_of rows\<rparr>])"
    by (simp add: w'_def store_execution_logs_def tick_def Let_def log5 frame4 W3_def
          commit_def W2_def mark_running_eq split: option.splits)
  from result exs res len each tcs' logs fields show ?thesis
    unfolding tcs_def by blast
qed

lemma run_quiet_empty:
  assumes ex: "executions w eid = Some e" and id: "exec_id e = eid"
    and quiet: "cache_raises ev AtRunning = None"
    and empty: "get_test_cases_for_execution w e = []"
  shows "execute_test_suite_async ev eid task_id w =
     (Inr [(''success'', JBool True), (''total_tests'', JInt 0)],
      w\<lparr>cache := (cache w)(execution_status (str_nat eid) \<mapsto>
          [(''status'', JStr ''running''), (''started_at'', JIso (clock w)),
           (''progress'', JInt 0)]),
        clock := Suc (Suc (clock w)),
        executions := (executions w)(eid \<mapsto>
          e\<lparr>started_at := Some (clock w), celery_task_id := Some task_id,
            status := COMPLETED, completed_at := Some (Suc (clock w)),
            total_tests := 0\<rparr>)\<rparr>)"
proof -
  define E1 where "E1 = fst (mark_running e task_id w)"
  define W2 where "W2 = (snd (mark_running e task_id w))\<lparr>cache :=
                (cache w)(execution_status (str_nat eid) \<mapsto>
                  [(''status'', JStr ''running''), (''started_at'', JIso (clock w)),
                   (''progress'', JInt 0)])\<rparr>"
  have entry: "execute_test_suite_async ev eid task_id w =
     (case try_body ev E1 W2 of
        Inr (ret, w3) \<Rightarrow> (Inr ret, w3)
      | Inl (m, e2, w3) \<Rightarrow> except_handler ev m e2 w3)"
    unfolding E1_def W2_def by (rule entry_try [OF ex quiet])
  have "get_test_cases_for_execution W2 E1 = get_test_cases_for_execution w e"
    by (rule get_test_cases_for_execution_cong) (simp_all add: W2_def E1_def mark_running_eq)
  with empty have "get_test_cases_for_execution W2 E1 = []"
    by simp
  from try_body_empty [OF this, where ev = ev]
  have "execute_test_suite_async ev eid task_id w =
     (Inr [(''success'', JBool True), (''total_tests'', JInt 0)],
      commit (E1\<lparr>status := COMPLETED, completed_at := Some (clock W2), total_tests := 0\<rparr>)
        (tick W2))"
    by (simp add: entry)
  then show ?thesis
    by (simp add: W2_def E1_def mark_running_eq commit_def tick_def id)
qed

text \<open>What a job does when none of its cache writes raises, for any target set.\<close>

lemma run_quiet_general:
  assumes ex: "executions w eid = Some e" and id: "exec_id e = eid"
    and quiet: "\<forall>s. cache_raises ev s = None"
  shows "\<exists>ret rows e' w'.
      execute_test_suite_async ev eid task_id w = (Inr ret, w')
    \<and> executions w' = (executions w)(eid \<mapsto> e')
    \<and> results w' = results w @ rows
    \<and> length rows = length (get_test_cases_for_execution w e)
    \<and> (\<forall>k<length (get_test_cases_for_execution w e).
           execution_id (rows ! k) = eid
         \<and> test_case_id (rows ! k) = tc_id (get_test_cases_for_execution w e ! k)
         \<and> r_status (rows ! k) =
             (case unit_of_work ev k of
                Ran passed \<Rightarrow> if passed then R_PASSED else R_FAILED
              | Raises m \<Rightarrow> R_ERROR)
         \<and> r_error_message (rows ! k) =
             (case unit_of_work ev k of
                Ran passed \<Rightarrow> if passed then None else Some ''Test assertion failed''
              | Raises m \<Rightarrow> Some m)
         \<and> r_completed_at (rows ! k) \<noteq> None
         \<and> r_duration_seconds (rows ! k) \<noteq> None)
    \<and> status e' = COMPLETED
    \<and> started_at e' = Some (clock w)
    \<and> celery_task_id e' = Some task_id
    \<and> completed_at e' \<noteq> None
    \<and> total_tests e' = int (length (get_test_cases_for_execution w e))"
proof (cases "get_test_cases_for_execution w e = []")
  case True
  from quiet have q: "cache_raises ev AtRunning = None" by simp
  define e' where "e' = e\<lparr>started_at := Some (clock w), celery_task_id := Some task_id,
            status := COMPLETED, completed_at := Some (Suc (clock w)),
            total_tests := 0\<rparr>"
  define w' where "w' = w\<lparr>cache := (cache w)(execution_status (str_nat eid) \<mapsto>
          [(''status'', JStr ''running''), (''started_at'', JIso (clock w)),
           (''progress'', JInt 0)]),
        clock := Suc (Suc (clock w)),
        executions := (executions w)(eid \<mapsto> e')\<rparr>"
  have "execute_test_suite_async ev eid task_id w =
      (Inr [(''success'', JBool True), (''total_tests'', JInt 0)], w')"
    unfolding w'_def e'_def by (rule run_quiet_empty [OF ex id q True])
  moreover have "executions w' = (executions w)(eid \<mapsto> e')" "results w' = results w @ []"
    by (simp_all add: w'_def)
  moreover have "status e' = COMPLETED" "started_at e' = Some (clock w)"
    "celery_task_id e' = Some task_id" "completed_at e' \<noteq> None" "total_tests e' = 0"
    by (simp_all add: e'_def)
  ultimately show ?thesis using True
    by (intro exI [of _ "[(''success'', JBool True), (''total_tests'', JInt 0)]"]
          exI [of _ "[]"] exI [of _ e'] exI [of _ w']) simp
next
  case False
  from run_quiet [OF ex id quiet False, of task_id]
  show ?thesis by blast
qed

subsection \<open>A job with any faults\<close>

text \<open>The row that a job leaves, whatever raises.\<close>

lemma run_any_row:
  assumes ex: "executions w eid = Some e" and id: "exec_id e = eid"
  shows "\<exists>e' w'.
      snd (execute_test_suite_async ev eid task_id w) = w'
    \<and> executions w' eid = Some e'
    \<and> (passed_tests e' = passed_tests e \<and> failed_tests e' = failed_tests e
        \<and> skipped_tests e' = skipped_tests e \<and> blocked_tests e' = blocked_tests e
        \<and> error_tests e' = error_tests e
        \<and> (total_tests e' = total_tests e
            \<or> total_tests e' = int (length (get_test_cases_for_execution w e)))
       \<or> (\<exists>rows. results w' = results w @ rows
            \<and> length rows = length (get_test_cases_for_execution w e)
            \<and> (\<forall>r\<in>set rows. execution_id r = eid
                  \<and> r_status r \<in> {R_PASSED, R_FAILED, R_ERROR})
            \<and> passed_tests e' = count_status R_PASSED (results_of eid w')
            \<and> failed_tests e' = count_status R_FAILED (results_of eid w')
            \<and> skipped_tests e' = count_status R_SKIPPED (results_of eid w')
            \<and> blocked_tests e' = count_status R_BLOCKED (results_of eid w')
            \<and> error_tests e' = count_status R_ERROR (results_of eid w')
            \<and> total_tests e' = int (length (get_test_cases_for_execution w e))))"
proof (cases "cache_raises ev AtRunning")
  case (Some m)
  from entry_first_write_raises [OF ex Some, of task_id]
  have "snd (execute_test_suite_async ev eid task_id w) = snd (mark_running e task_id w)"
    by simp
  then show ?thesis
    by (simp add: mark_running_eq id)
next
  case None
  define tcs where "tcs = get_test_cases_for_execution w e"
  define E1 where "E1 = fst (mark_running e task_id w)"
  define W2 where "W2 = (snd (mark_running e task_id w))\<lparr>cache :=
                (cache w)(execution_status (str_nat eid) \<mapsto>
                  [(''status'', JStr ''running''), (''started_at'', JIso (clock w)),
                   (''progress'', JInt 0)])\<rparr>"
  define E2 where "E2 = E1\<lparr>total_tests := int (length tcs)\<rparr>"
  define W3 where "W3 = commit E2 W2"
  have entry: "execute_test_suite_async ev eid task_id w =
     (case try_body ev E1 W2 of
        Inr (ret, w3) \<Rightarrow> (Inr ret, w3)
      | Inl (m, e2, w3) \<Rightarrow> except_handler ev m e2 w3)"
    unfolding E1_def W2_def by (rule entry_try [OF ex None])
  have gtc: "get_test_cases_for_execution W2 E1 = tcs"
    unfolding tcs_def
    by (rule get_test_cases_for_execution_cong) (simp_all add: W2_def E1_def mark_running_eq)
  have E2_id: "exec_id E2 = eid"
    by (simp add: E2_def E1_def mark_running_eq id)
  have E2_counters: "passed_tests E2 = passed_tests e" "failed_tests E2 = failed_tests e"
    "skipped_tests E2 = skipped_tests e" "blocked_tests E2 = blocked_tests e"
    "error_tests E2 = error_tests e" "total_tests E2 = int (length tcs)"
    by (simp_all add: E2_def E1_def mark_running_eq)
  have W3_frame: "results W3 = results w" "executions W3 = (executions w)(eid \<mapsto> E2)"
    by (simp_all add: W3_def commit_def W2_def mark_running_eq E2_id id)
  show ?thesis
  proof (cases "tcs = []")
    case True
    with run_quiet_empty [OF ex id None, of task_id]
    have "snd (execute_test_suite_async ev eid task_id w) =
      w\<lparr>cache := (cache w)(execution_status (str_nat eid) \<mapsto>
          [(''status'', JStr ''running''), (''started_at'', JIso (clock w)),
           (''progress'', JInt 0)]),
        clock := Suc (Suc (clock w)),
        executions := (executions w)(eid \<mapsto>
          e\<lparr>started_at := Some (clock w), celery_task_id := Some task_id,
            status := COMPLETED, completed_at := Some (Suc (clock w)),
            total_tests := 0\<rparr>)\<rparr>"
      by (simp add: tcs_def)
    with True show ?thesis
      by (simp add: tcs_def)
  next
    case False
    then have ne2: "get_test_cases_for_execution W2 E1 \<noteq> []"
      by (simp add: gtc)
    have body: "try_body ev E1 W2 =
       (case run_tests ev E2 (length tcs) 0 tcs [] W3 of
          Inl (m, w2) \<Rightarrow> Inl (m, E2, w2)
        | Inr (rs, w2) \<Rightarrow> complete_execution ev E2 rs w2)"
      using try_body_nonempty [OF ne2, where ev = ev] unfolding gtc E2_def W3_def .
    from run_tests_any [where ev = ev and ex = E2 and n = "length tcs" and idx = 0
        and tcs = tcs and acc = "[]" and w = W3]
    obtain rows w4 where
      loop: "run_tests ev E2 (length tcs) 0 tcs [] W3 = Inr (rows, w4)
               \<and> length rows = length tcs
             \<or> (\<exists>m. run_tests ev E2 (length tcs) 0 tcs [] W3 = Inl (m, w4))"
      and res4: "results w4 = results w @ rows"
      and each: "\<forall>r\<in>set rows. execution_id r = eid
            \<and> r_status r \<in> {R_PASSED, R_FAILED, R_ERROR}"
      and exs4: "executions w4 = (executions w)(eid \<mapsto> E2)"
      unfolding E2_id W3_frame by auto
    from loop show ?thesis
    proof
      assume "\<exists>m. run_tests ev E2 (length tcs) 0 tcs [] W3 = Inl (m, w4)"
      then obtain m where "run_tests ev E2 (length tcs) 0 tcs [] W3 = Inl (m, w4)"
        by blast
      then have "execute_test_suite_async ev eid task_id w = except_handler ev m E2 w4"
        by (simp add: entry body)
      then have "executions (snd (execute_test_suite_async ev eid task_id w)) eid =
          Some (E2\<lparr>status := FAILED, error_message := Some m,
                  completed_at := Some (clock w4)\<rparr>)"
        by (simp add: except_handler_row E2_id)
      then show ?thesis
        using E2_counters by (simp add: tcs_def)
    next
      assume ok: "run_tests ev E2 (length tcs) 0 tcs [] W3 = Inr (rows, w4)
               \<and> length rows = length tcs"
      from complete_execution_row [where ev = ev and e = E2 and rs = rows and w = w4]
      obtain e' w5 where
        fin: "case complete_execution ev E2 rows w4 of
            Inl (m, e2, w2) \<Rightarrow> cache_raises ev AtCompleted = Some m \<and> e2 = e' \<and> w2 = w5
          | Inr (ret, w2) \<Rightarrow> cache_raises ev AtCompleted = None
              \<and> (\<exists>c. w2 = store_execution_logs ev (exec_id E2) rows (w5\<lparr>cache := c\<rparr>))"
        and ex5: "executions w5 = (executions w4)(exec_id E2 \<mapsto> e')"
        and res5: "results w5 = results w4"
        and e': "e' = E2\<lparr>passed_tests := count_status R_PASSED (results_of (exec_id E2) w4),
            failed_tests := count_status R_FAILED (results_of (exec_id E2) w4),
            skipped_tests := count_status R_SKIPPED (results_of (exec_id E2) w4),
            blocked_tests := count_status R_BLOCKED (results_of (exec_id E2) w4),
            error_tests := count_status R_ERROR (results_of (exec_id E2) w4),
            status := COMPLETED, completed_at := Some (clock w4),
            duration_seconds := seconds_between (Some (clock w4)) (started_at E2)\<rparr>"
        by blast
      have e'_id: "exec_id e' = eid"
        by (simp add: e' E2_id)
      have counted: "passed_tests e' = count_status R_PASSED (results_of eid w4)"
        "failed_tests e' = count_status R_FAILED (results_of eid w4)"
        "skipped_tests e' = count_status R_SKIPPED (results_of eid w4)"
        "blocked_tests e' = count_status R_BLOCKED (results_of eid w4)"
        "error_tests e' = count_status R_ERROR (results_of eid w4)"
        "total_tests e' = int (length tcs)"
        by (simp_all add: e' E2_id E2_counters)
      have "\<exists>e'' w'. snd (execute_test_suite_async ev eid task_id w) = w'
          \<and> executions w' eid = Some e'' \<and> results w' = results w4
          \<and> passed_tests e'' = passed_tests e' \<and> failed_tests e'' = failed_tests e'
          \<and> skipped_tests e'' = skipped_tests e' \<and> blocked_tests e'' = blocked_tests e'
          \<and> error_tests e'' = error_tests e' \<and> total_tests e'' = total_tests e'"
      proof (cases "complete_execution ev E2 rows w4")
        case (Inl a)
        then obtain m where comp: "complete_execution ev E2 rows w4 = Inl (m, e', w5)"
          using fin by (cases a) auto
        then have "execute_test_suite_async ev eid task_id w = except_handler ev m e' w5"
          using ok by (simp add: entry body)
        then have "executions (snd (execute_test_suite_async ev eid task_id w)) eid =
            Some (e'\<lparr>status := FAILED, error_message := Some m,
                    completed_at := Some (clock w5)\<rparr>)"
          "results (snd (execute_test_suite_async ev eid task_id w)) = results w4"
          by (simp_all add: except_handler_row e'_id res5)
        then show ?thesis by simp
      next
        case (Inr b)
        then obtain ret c where
          comp: "complete_execution ev E2 rows w4 =
            Inr (ret, store_execution_logs ev eid rows (w5\<lparr>cache := c\<rparr>))"
          using fin unfolding E2_id by (cases b) auto
        then have "execute_test_suite_async ev eid task_id w =
            (Inr ret, store_execution_logs ev eid rows (w5\<lparr>cache := c\<rparr>))"
          using ok by (simp add: entry body)
        then have "executions (snd (execute_test_suite_async ev eid task_id w)) eid = Some e'"
          "results (snd (execute_test_suite_async ev eid task_id w)) = results w4"
          by (simp_all add: store_execution_logs_frame ex5 E2_id res5)
        then show ?thesis by simp
      qed
      then obtain e'' w' where
        fin': "snd (execute_test_suite_async ev eid task_id w) = w'"
          "executions w' eid = Some e''" "results w' = results w4"
        and same: "passed_tests e'' = passed_tests e'" "failed_tests e'' = failed_tests e'"
          "skipped_tests e'' = skipped_tests e'" "blocked_tests e'' = blocked_tests e'"
          "error_tests e'' = error_tests e'" "total_tests e'' = total_tests e'"
        by blast
      have ro: "results_of eid w' = results_of eid w4"
        by (simp add: results_of_def fin'(3))
      have "results w' = results w @ rows" "length rows = length tcs"
        using fin'(3) res4 ok by simp_all
      with same counted each ro
      have "\<exists>rows. results w' = results w @ rows
            \<and> length rows = length (get_test_cases_for_execution w e)
            \<and> (\<forall>r\<in>set rows. execution_id r = eid
                  \<and> r_status r \<in> {R_PASSED, R_FAILED, R_ERROR})
            \<and> passed_tests e'' = count_status R_PASSED (results_of eid w')
            \<and> failed_tests e'' = count_status R_FAILED (results_of eid w')
            \<and> skipped_tests e'' = count_status R_SKIPPED (results_of eid w')
            \<and> blocked_tests e'' = count_status R_BLOCKED (results_of eid w')
            \<and> error_tests e'' = count_status R_ERROR (results_of eid w')
            \<and> total_tests e'' = int (length (get_test_cases_for_execution w e))"
        unfolding tcs_def by (intro exI [of _ rows]) simp
      with fin'(1,2) show ?thesis
        by blast
    qed
  qed
qed

subsection \<open>Evaluation of the scenarios\<close>

lemmas model_defs =
  execute_test_suite_async_def mark_running_def set_json_def try_body_def
  complete_execution_def update_execution_summary_def results_of_def count_status_def
  store_execution_logs_def log_result_of_def except_handler_def execute_single_test_def
  get_test_cases_for_execution_def project_rows_def suite_rows_def commit_def tick_def
  seconds_between_def execution_status_def cancel_execution_async_def delete_def
  terminal_results_def counted_tests_def pass_rate_returns Let_def

lemmas scenario_defs =
  example_world_def example_execution_def example_test_case_def example_result_def
  quiet_env_def faulty_env_def passing_env_def mixed_env_def interrupted_env_def
  final_snapshot_fails_env_def log_store_down_env_def empty_world_def two_case_world_def
  three_case_world_def shared_test_case_def suite_execution_def suite_world_def
  archived_execution_def archived_world_def

subsection \<open>A single uninterrupted run\<close>

text \<open>
  C2. The recount is made over the persisted rows, and the counters add up to
  \<open>total_tests\<close>; but a test case of the target suite that also belongs to another suite
  is run once for each of its suites. Execution 7 targets suite 4, whose only test case, 10,
  also belongs to suite 5: the query of lines 205-209 joins the test case with all of its
  suites and returns it twice, where the query over the project (lines 212-220) returns
  it once. After a single run in which nothing raises the row is COMPLETED with
  \<open>total_tests = 2\<close> and \<open>passed_tests = 2\<close>, and test case 10 has two PASSED results: two
  results for a target set of one test case.
\<close>

theorem suite_join_repeats_test_case:
  "map tc_id (test_cases suite_world) = [10]
   \<and> map tc_id (get_test_cases_for_execution suite_world suite_execution) = [10, 10]
   \<and> map tc_id (get_test_cases_for_execution suite_world (example_execution QUEUED)) = [10]
   \<and> fst (execute_test_suite_async passing_env 7 ''job'' suite_world) =
       Inr [(''success'', JBool True), (''execution_id'', JInt 7), (''total_tests'', JInt 2),
            (''passed'', JInt 2), (''failed'', JInt 0), (''duration'', JInt 5)]
   \<and> map execution_id (results after_suite_job) = [7, 7]
   \<and> map test_case_id (results after_suite_job) = [10, 10]
   \<and> map r_status (results after_suite_job) = [R_PASSED, R_PASSED]
   \<and> map_option status (executions after_suite_job 7) = Some COMPLETED
   \<and> map_option total_tests (executions after_suite_job 7) = Some 2
   \<and> map_option passed_tests (executions after_suite_job 7) = Some 2
   \<and> map_option failed_tests (executions after_suite_job 7) = Some 0
   \<and> map_option skipped_tests (executions after_suite_job 7) = Some 0
   \<and> map_option blocked_tests (executions after_suite_job 7) = Some 0
   \<and> map_option error_tests (executions after_suite_job 7) = Some 0"
  by (simp add: after_suite_job_def model_defs scenario_defs str_nat_7)

text \<open>
  C7. When no cache write raises and the unit of work raises for the test case at index
  \<open>k\<close> of the target set, the job still returns and leaves the execution COMPLETED; it has
  made one result for every test case of the target set, in order, none of them PENDING;
  the result at index \<open>k\<close> has status ERROR, the message of the exception as its
  \<open>error_message\<close>, and \<open>completed_at\<close> and \<open>duration_seconds\<close> set.
\<close>

theorem runner_error_contained:
  assumes ex: "executions w eid = Some e" and id: "exec_id e = eid"
    and quiet: "\<forall>s. cache_raises ev s = None"
    and k: "k < length (get_test_cases_for_execution w e)"
    and raises: "unit_of_work ev k = Raises m"
  shows "\<exists>ret rows e' w'.
      execute_test_suite_async ev eid task_id w = (Inr ret, w')
    \<and> executions w' eid = Some e'
    \<and> status e' = COMPLETED
    \<and> results w' = results w @ rows
    \<and> map test_case_id rows = map tc_id (get_test_cases_for_execution w e)
    \<and> (\<forall>r\<in>set rows. r_status r \<noteq> R_PENDING)
    \<and> r_status (rows ! k) = R_ERROR
    \<and> r_error_message (rows ! k) = Some m
    \<and> r_completed_at (rows ! k) \<noteq> None
    \<and> r_duration_seconds (rows ! k) \<noteq> None"
proof -
  from run_quiet_general [OF ex id quiet, of task_id]
  obtain ret rows e' w' where
    run: "execute_test_suite_async ev eid task_id w = (Inr ret, w')"
    and exs: "executions w' = (executions w)(eid \<mapsto> e')"
    and res: "results w' = results w @ rows"
    and len: "length rows = length (get_test_cases_for_execution w e)"
    and each: "\<forall>k<length (get_test_cases_for_execution w e).
           execution_id (rows ! k) = eid
         \<and> test_case_id (rows ! k) = tc_id (get_test_cases_for_execution w e ! k)
         \<and> r_status (rows ! k) =
             (case unit_of_work ev k of
                Ran passed \<Rightarrow> if passed then R_PASSED else R_FAILED
              | Raises m \<Rightarrow> R_ERROR)
         \<and> r_error_message (rows ! k) =
             (case unit_of_work ev k of
                Ran passed \<Rightarrow> if passed then None else Some ''Test assertion failed''
              | Raises m \<Rightarrow> Some m)
         \<and> r_completed_at (rows ! k) \<noteq> None
         \<and> r_duration_seconds (rows ! k) \<noteq> None"
    and st: "status e' = COMPLETED"
    by blast
  from each have ids: "\<forall>k<length (get_test_cases_for_execution w e).
      test_case_id (rows ! k) = tc_id (get_test_cases_for_execution w e ! k)"
    by blast
  have order: "map test_case_id rows = map tc_id (get_test_cases_for_execution w e)"
    by (rule rows_follow_target [OF len ids])
  from each have "\<forall>k<length (get_test_cases_for_execution w e). r_status (rows ! k) =
             (case unit_of_work ev k of
                Ran passed \<Rightarrow> if passed then R_PASSED else R_FAILED
              | Raises m \<Rightarrow> R_ERROR)"
    by blast
  with len have "\<forall>r\<in>set rows. r_status r \<in> {R_PASSED, R_FAILED, R_ERROR}"
    by (rule rows_terminal)
  then have none_pending: "\<forall>r\<in>set rows. r_status r \<noteq> R_PENDING"
    by auto
  from each k raises have at_k: "r_status (rows ! k) = R_ERROR"
    "r_error_message (rows ! k) = Some m" "r_completed_at (rows ! k) \<noteq> None"
    "r_duration_seconds (rows ! k) \<noteq> None"
    by simp_all
  have "executions w' eid = Some e'"
    by (simp add: exs)
  with run st res order none_pending at_k show ?thesis
    by blast
qed

theorem runner_error_contained_witness:
  "get_test_cases_for_execution
     (example_world QUEUED
        [example_test_case 10, example_test_case 11, example_test_case 12, example_test_case 13]
        [])
     (example_execution QUEUED) =
     [example_test_case 10, example_test_case 11, example_test_case 12, example_test_case 13]
   \<and> (\<exists>ret rows e' w'.
      execute_test_suite_async
        (quiet_env (\<lambda>i. if i = 2 then Raises ''driver crashed'' else Ran True)) 7 ''job''
        (example_world QUEUED
           [example_test_case 10, example_test_case 11, example_test_case 12, example_test_case 13]
           [])
        = (Inr ret, w')
    \<and> executions w' 7 = Some e'
    \<and> status e' = COMPLETED
    \<and> results w' = results (example_world QUEUED
           [example_test_case 10, example_test_case 11, example_test_case 12, example_test_case 13]
           []) @ rows
    \<and> map test_case_id rows = map tc_id (get_test_cases_for_execution
         (example_world QUEUED
           [example_test_case 10, example_test_case 11, example_test_case 12, example_test_case 13]
           [])
         (example_execution QUEUED))
    \<and> (\<forall>r\<in>set rows. r_status r \<noteq> R_PENDING)
    \<and> r_status (rows ! 2) = R_ERROR
    \<and> r_error_message (rows ! 2) = Some ''driver crashed''
    \<and> r_completed_at (rows ! 2) \<noteq> None
    \<and> r_duration_seconds (rows ! 2) \<noteq> None)"
proof -
  define W where "W = example_world QUEUED
    [example_test_case 10, example_test_case 11, example_test_case 12, example_test_case 13] []"
  define E where "E = example_execution QUEUED"
  define V where "V = quiet_env (\<lambda>i. if i = 2 then Raises ''driver crashed'' else Ran True)"
  have tcs: "get_test_cases_for_execution W E =
      [example_test_case 10, example_test_case 11, example_test_case 12, example_test_case 13]"
    by (simp add: W_def E_def example_world_def example_execution_def example_test_case_def
          get_test_cases_for_execution_def project_rows_def)
  have h: "executions W 7 = Some E" "exec_id E = 7" "\<forall>s. cache_raises V s = None"
    "2 < length (get_test_cases_for_execution W E)"
    "unit_of_work V 2 = Raises ''driver crashed''"
    unfolding tcs
    by (simp_all add: W_def E_def V_def example_world_def example_execution_def quiet_env_def)
  from tcs runner_error_contained [OF h, of "''job''"] show ?thesis
    unfolding W_def E_def V_def by (rule conjI)
qed

subsection \<open>Entering RUNNING and re-entry\<close>

text \<open>
  C10. For an execution that is in the table, whatever its status: the first commit of the
  entry point (\<open>mark_running\<close>, lines 91-95) writes the row with status RUNNING,
  \<open>started_at\<close> the current time and \<open>celery_task_id\<close> the id of the job; if the first
  cache write raises, the coroutine raises with the world in that state; if no cache write
  raises, the job makes a new result for every test case of the target set and leaves the
  row COMPLETED with the new \<open>started_at\<close> and \<open>celery_task_id\<close>.
\<close>

theorem unconditional_running_transition:
  assumes ex: "executions w eid = Some e" and id: "exec_id e = eid"
  shows "executions (snd (mark_running e task_id w)) eid =
           Some (e\<lparr>status := RUNNING, started_at := Some (clock w),
                   celery_task_id := Some task_id\<rparr>)
       \<and> (\<forall>m. cache_raises ev AtRunning = Some m \<longrightarrow>
             execute_test_suite_async ev eid task_id w =
               (Inl m, snd (mark_running e task_id w)))
       \<and> ((\<forall>s. cache_raises ev s = None) \<longrightarrow>
             (\<exists>ret rows e' w'.
                execute_test_suite_async ev eid task_id w = (Inr ret, w')
              \<and> executions w' eid = Some e'
              \<and> status e' = COMPLETED
              \<and> started_at e' = Some (clock w)
              \<and> celery_task_id e' = Some task_id
              \<and> results w' = results w @ rows
              \<and> map test_case_id rows = map tc_id (get_test_cases_for_execution w e)
              \<and> (\<forall>r\<in>set rows. execution_id r = eid \<and> r_status r \<noteq> R_PENDING)))"
proof (intro conjI allI impI)
  show "executions (snd (mark_running e task_id w)) eid =
           Some (e\<lparr>status := RUNNING, started_at := Some (clock w),
                   celery_task_id := Some task_id\<rparr>)"
    by (simp add: mark_running_eq id)
next
  fix m assume "cache_raises ev AtRunning = Some m"
  with ex show "execute_test_suite_async ev eid task_id w =
               (Inl m, snd (mark_running e task_id w))"
    by (rule entry_first_write_raises)
next
  assume quiet: "\<forall>s. cache_raises ev s = None"
  from run_quiet_general [OF ex id quiet, of task_id]
  obtain ret rows e' w' where
    run: "execute_test_suite_async ev eid task_id w = (Inr ret, w')"
    and exs: "executions w' = (executions w)(eid \<mapsto> e')"
    and res: "results w' = results w @ rows"
    and len: "length rows = length (get_test_cases_for_execution w e)"
    and each: "\<forall>k<length (get_test_cases_for_execution w e).
           execution_id (rows ! k) = eid
         \<and> test_case_id (rows ! k) = tc_id (get_test_cases_for_execution w e ! k)
         \<and> r_status (rows ! k) =
             (case unit_of_work ev k of
                Ran passed \<Rightarrow> if passed then R_PASSED else R_FAILED
              | Raises m \<Rightarrow> R_ERROR)
         \<and> r_error_message (rows ! k) =
             (case unit_of_work ev k of
                Ran passed \<Rightarrow> if passed then None else Some ''Test assertion failed''
              | Raises m \<Rightarrow> Some m)
         \<and> r_completed_at (rows ! k) \<noteq> None
         \<and> r_duration_seconds (rows ! k) \<noteq> None"
    and fields: "status e' = COMPLETED" "started_at e' = Some (clock w)"
      "celery_task_id e' = Some task_id"
    by blast
  from each have ids: "\<forall>k<length (get_test_cases_for_execution w e).
      test_case_id (rows ! k) = tc_id (get_test_cases_for_execution w e ! k)"
    by blast
  have order: "map test_case_id rows = map tc_id (get_test_cases_for_execution w e)"
    by (rule rows_follow_target [OF len ids])
  from len each have own: "\<forall>r\<in>set rows. execution_id r = eid"
    by (auto simp: in_set_conv_nth)
  from each have "\<forall>k<length (get_test_cases_for_execution w e). r_status (rows ! k) =
             (case unit_of_work ev k of
                Ran passed \<Rightarrow> if passed then R_PASSED else R_FAILED
              | Raises m \<Rightarrow> R_ERROR)"
    by blast
  with len have "\<forall>r\<in>set rows. r_status r \<in> {R_PASSED, R_FAILED, R_ERROR}"
    by (rule rows_terminal)
  with own have all: "\<forall>r\<in>set rows. execution_id r = eid \<and> r_status r \<noteq> R_PENDING"
    by auto
  have "executions w' eid = Some e'"
    by (simp add: exs)
  with run fields res order all
  show "\<exists>ret rows e' w'.
                execute_test_suite_async ev eid task_id w = (Inr ret, w')
              \<and> executions w' eid = Some e'
              \<and> status e' = COMPLETED
              \<and> started_at e' = Some (clock w)
              \<and> celery_task_id e' = Some task_id
              \<and> results w' = results w @ rows
              \<and> map test_case_id rows = map tc_id (get_test_cases_for_execution w e)
              \<and> (\<forall>r\<in>set rows. execution_id r = eid \<and> r_status r \<noteq> R_PENDING)"
    by blast
qed

text \<open>
  The witness: a COMPLETED execution with a result for test case 10 is run again. With a
  cache that raises at the first write it is left RUNNING; with a quiet cache it gets a
  second result for test case 10.
\<close>

theorem unconditional_running_transition_witness:
  "status (example_execution COMPLETED) = COMPLETED
   \<and> execute_test_suite_async
        (faulty_env (\<lambda>_. Ran True) (\<lambda>_. Some ''connection refused'') None)
        7 ''job-2'' (example_world COMPLETED [example_test_case 10] [example_result 10]) =
       (Inl ''connection refused'',
        snd (mark_running (example_execution COMPLETED) ''job-2''
               (example_world COMPLETED [example_test_case 10] [example_result 10])))
   \<and> executions (snd (mark_running (example_execution COMPLETED) ''job-2''
               (example_world COMPLETED [example_test_case 10] [example_result 10]))) 7 =
       Some ((example_execution COMPLETED)\<lparr>status := RUNNING, started_at := Some 100,
               celery_task_id := Some ''job-2''\<rparr>)
   \<and> (\<exists>ret rows e' w'.
         execute_test_suite_async (quiet_env (\<lambda>_. Ran True)) 7 ''job-2''
           (example_world COMPLETED [example_test_case 10] [example_result 10]) = (Inr ret, w')
       \<and> executions w' 7 = Some e'
       \<and> status e' = COMPLETED
       \<and> started_at e' = Some 100
       \<and> celery_task_id e' = Some ''job-2''
       \<and> results w' = [example_result 10] @ rows
       \<and> map test_case_id rows = [10]
       \<and> (\<forall>r\<in>set rows. execution_id r = 7 \<and> r_status r \<noteq> R_PENDING))"
proof -
  define W where "W = example_world COMPLETED [example_test_case 10] [example_result 10]"
  define E where "E = example_execution COMPLETED"
  define V1 where
    "V1 = faulty_env (\<lambda>_. Ran True) (\<lambda>_. Some ''connection refused'') None"
  define V2 where "V2 = quiet_env (\<lambda>_. Ran True)"
  have h: "executions W 7 = Some E" "exec_id E = 7"
    by (simp_all add: W_def E_def example_world_def example_execution_def)
  have tcs: "map tc_id (get_test_cases_for_execution W E) = [10]"
    by (simp add: W_def E_def example_world_def example_execution_def example_test_case_def
          get_test_cases_for_execution_def project_rows_def)
  have facts: "status E = COMPLETED" "cache_raises V1 AtRunning = Some ''connection refused''"
    "\<forall>s. cache_raises V2 s = None" "clock W = 100" "results W = [example_result 10]"
    by (simp_all add: E_def V1_def V2_def W_def example_execution_def quiet_env_def faulty_env_def
          example_world_def)
  from unconditional_running_transition [OF h, of "''job-2''" V1]
    unconditional_running_transition [OF h, of "''job-2''" V2] facts tcs
  show ?thesis
    unfolding W_def [symmetric] E_def [symmetric] V1_def [symmetric] V2_def [symmetric]
    by simp
qed

text \<open>
  C1, as the code has it. The entry point does not look at the results that exist: when no
  cache write raises, the job returns and, for every test case id \<open>c\<close>, the number of
  terminal results of \<open>c\<close> in the execution grows by the number of times \<open>c\<close> is in the
  target set. A test case of the target set that had a terminal result has one more.
\<close>

theorem reentry_appends_results:
  assumes ex: "executions w eid = Some e" and id: "exec_id e = eid"
    and quiet: "\<forall>s. cache_raises ev s = None"
  shows "\<exists>ret w'.
      execute_test_suite_async ev eid task_id w = (Inr ret, w')
    \<and> (\<forall>c. length (terminal_results eid c w') =
            length (terminal_results eid c w)
            + count_list (map tc_id (get_test_cases_for_execution w e)) c)"
proof -
  from run_quiet_general [OF ex id quiet, of task_id]
  obtain ret rows e' w' where
    run: "execute_test_suite_async ev eid task_id w = (Inr ret, w')"
    and res: "results w' = results w @ rows"
    and len: "length rows = length (get_test_cases_for_execution w e)"
    and each: "\<forall>k<length (get_test_cases_for_execution w e).
           execution_id (rows ! k) = eid
         \<and> test_case_id (rows ! k) = tc_id (get_test_cases_for_execution w e ! k)
         \<and> r_status (rows ! k) =
             (case unit_of_work ev k of
                Ran passed \<Rightarrow> if passed then R_PASSED else R_FAILED
              | Raises m \<Rightarrow> R_ERROR)
         \<and> r_error_message (rows ! k) =
             (case unit_of_work ev k of
                Ran passed \<Rightarrow> if passed then None else Some ''Test assertion failed''
              | Raises m \<Rightarrow> Some m)
         \<and> r_completed_at (rows ! k) \<noteq> None
         \<and> r_duration_seconds (rows ! k) \<noteq> None"
    by blast
  from each have ids: "\<forall>k<length (get_test_cases_for_execution w e).
      test_case_id (rows ! k) = tc_id (get_test_cases_for_execution w e ! k)"
    by blast
  have order: "map test_case_id rows = map tc_id (get_test_cases_for_execution w e)"
    by (rule rows_follow_target [OF len ids])
  from len each have own: "\<forall>r\<in>set rows. execution_id r = eid"
    by (auto simp: in_set_conv_nth)
  from each have "\<forall>k<length (get_test_cases_for_execution w e). r_status (rows ! k) =
             (case unit_of_work ev k of
                Ran passed \<Rightarrow> if passed then R_PASSED else R_FAILED
              | Raises m \<Rightarrow> R_ERROR)"
    by blast
  with len have "\<forall>r\<in>set rows. r_status r \<in> {R_PASSED, R_FAILED, R_ERROR}"
    by (rule rows_terminal)
  with own have all: "\<forall>r\<in>set rows. execution_id r = eid \<and> r_status r \<noteq> R_PENDING"
    by auto
  have "\<forall>c. length (terminal_results eid c w') =
            length (terminal_results eid c w)
            + count_list (map tc_id (get_test_cases_for_execution w e)) c"
    using terminal_results_append [OF res all] unfolding order by blast
  with run show ?thesis by blast
qed

theorem reentry_appends_results_witness:
  "length (terminal_results 7 10
      (example_world FAILED [example_test_case 10, example_test_case 11] [example_result 10]))
     = 1
   \<and> (\<exists>ret w'.
      execute_test_suite_async (quiet_env (\<lambda>_. Ran True)) 7 ''job-2''
        (example_world FAILED [example_test_case 10, example_test_case 11] [example_result 10])
        = (Inr ret, w')
    \<and> length (terminal_results 7 10 w') = 2
    \<and> length (terminal_results 7 11 w') = 1)"
proof -
  define W where
    "W = example_world FAILED [example_test_case 10, example_test_case 11] [example_result 10]"
  define E where "E = example_execution FAILED"
  define V where "V = quiet_env (\<lambda>_. Ran True)"
  have h: "executions W 7 = Some E" "exec_id E = 7" "\<forall>s. cache_raises V s = None"
    by (simp_all add: W_def E_def V_def example_world_def example_execution_def quiet_env_def)
  have tcs: "map tc_id (get_test_cases_for_execution W E) = [10, 11]"
    by (simp add: W_def E_def example_world_def example_execution_def example_test_case_def
          get_test_cases_for_execution_def project_rows_def)
  have before: "length (terminal_results 7 10 W) = 1" "length (terminal_results 7 11 W) = 0"
    by (simp_all add: terminal_results_def W_def example_world_def example_result_def)
  from reentry_appends_results [OF h, of "''job-2''"]
  obtain ret w' where run: "execute_test_suite_async V 7 ''job-2'' W = (Inr ret, w')"
    and grow: "\<forall>c. length (terminal_results 7 c w') =
            length (terminal_results 7 c W)
            + count_list (map tc_id (get_test_cases_for_execution W E)) c"
    by blast
  from grow [rule_format, of 10] grow [rule_format, of 11]
  have "length (terminal_results 7 10 w') = 2" "length (terminal_results 7 11 w') = 1"
    unfolding tcs before by simp_all
  with run before show ?thesis
    unfolding W_def V_def by blast
qed

text \<open>
  C1, as stated, fails. The first job makes a terminal result for test case 10 and none
  for test case 11; after the second job test case 10 has two terminal results.
\<close>

theorem idempotent_reentry_counterexample:
  "length (terminal_results 7 10 after_first_job) = 1
   \<and> length (terminal_results 7 11 after_first_job) = 0
   \<and> length (terminal_results 7 10 after_second_job) = 2"
  by (simp add: after_second_job_def after_first_job_def model_defs scenario_defs str_nat_7)

text \<open>
  C5, as the code has it. For an execution without result rows whose counters add up to 0
  (as the API creates it), in the state in which one job leaves the row, whether the job
  returns or raises, the counters add up to at most \<open>total_tests\<close>; \<open>total_tests\<close> is then
  the value from before the job (when the first cache write raises) or the size of the
  target set that the job has resolved.
\<close>

theorem counters_within_total_after_one_job:
  assumes ex: "executions w eid = Some e" and id: "exec_id e = eid"
    and norows: "results_of eid w = []"
    and zero: "counted_tests e = 0"
    and nonneg: "0 \<le> total_tests e"
  shows "\<exists>e'. executions (snd (execute_test_suite_async ev eid task_id w)) eid = Some e'
     \<and> counted_tests e' \<le> total_tests e'
     \<and> (total_tests e' = total_tests e
         \<or> total_tests e' = int (length (get_test_cases_for_execution w e)))"
proof -
  from run_any_row [OF ex id, of ev task_id]
  obtain e' w' where
    w': "snd (execute_test_suite_async ev eid task_id w) = w'"
    and row: "executions w' eid = Some e'"
    and alt: "passed_tests e' = passed_tests e \<and> failed_tests e' = failed_tests e
        \<and> skipped_tests e' = skipped_tests e \<and> blocked_tests e' = blocked_tests e
        \<and> error_tests e' = error_tests e
        \<and> (total_tests e' = total_tests e
            \<or> total_tests e' = int (length (get_test_cases_for_execution w e)))
       \<or> (\<exists>rows. results w' = results w @ rows
            \<and> length rows = length (get_test_cases_for_execution w e)
            \<and> (\<forall>r\<in>set rows. execution_id r = eid
                  \<and> r_status r \<in> {R_PASSED, R_FAILED, R_ERROR})
            \<and> passed_tests e' = count_status R_PASSED (results_of eid w')
            \<and> failed_tests e' = count_status R_FAILED (results_of eid w')
            \<and> skipped_tests e' = count_status R_SKIPPED (results_of eid w')
            \<and> blocked_tests e' = count_status R_BLOCKED (results_of eid w')
            \<and> error_tests e' = count_status R_ERROR (results_of eid w')
            \<and> total_tests e' = int (length (get_test_cases_for_execution w e)))"
    by blast
  from alt have "counted_tests e' \<le> total_tests e'
     \<and> (total_tests e' = total_tests e
         \<or> total_tests e' = int (length (get_test_cases_for_execution w e)))"
  proof
    assume same: "passed_tests e' = passed_tests e \<and> failed_tests e' = failed_tests e
        \<and> skipped_tests e' = skipped_tests e \<and> blocked_tests e' = blocked_tests e
        \<and> error_tests e' = error_tests e
        \<and> (total_tests e' = total_tests e
            \<or> total_tests e' = int (length (get_test_cases_for_execution w e)))"
    then have "counted_tests e' = 0"
      using zero by (simp add: counted_tests_def)
    moreover from same nonneg have "0 \<le> total_tests e'"
      by auto
    ultimately show ?thesis using same by simp
  next
    assume "\<exists>rows. results w' = results w @ rows
            \<and> length rows = length (get_test_cases_for_execution w e)
            \<and> (\<forall>r\<in>set rows. execution_id r = eid
                  \<and> r_status r \<in> {R_PASSED, R_FAILED, R_ERROR})
            \<and> passed_tests e' = count_status R_PASSED (results_of eid w')
            \<and> failed_tests e' = count_status R_FAILED (results_of eid w')
            \<and> skipped_tests e' = count_status R_SKIPPED (results_of eid w')
            \<and> blocked_tests e' = count_status R_BLOCKED (results_of eid w')
            \<and> error_tests e' = count_status R_ERROR (results_of eid w')
            \<and> total_tests e' = int (length (get_test_cases_for_execution w e))"
    then obtain rows where res: "results w' = results w @ rows"
      and len: "length rows = length (get_test_cases_for_execution w e)"
      and own: "\<forall>r\<in>set rows. execution_id r = eid"
      and fin: "\<forall>r\<in>set rows. r_status r \<in> {R_PASSED, R_FAILED, R_ERROR}"
      and cnt: "passed_tests e' = count_status R_PASSED (results_of eid w')"
        "failed_tests e' = count_status R_FAILED (results_of eid w')"
        "skipped_tests e' = count_status R_SKIPPED (results_of eid w')"
        "blocked_tests e' = count_status R_BLOCKED (results_of eid w')"
        "error_tests e' = count_status R_ERROR (results_of eid w')"
      and tot: "total_tests e' = int (length (get_test_cases_for_execution w e))"
      by blast
    have ro: "results_of eid w' = rows"
      using results_of_append [OF res own] norows by simp
    have "counted_tests e' = int (length rows)"
      using count_status_terminal [OF fin] by (simp add: counted_tests_def cnt ro)
    with len tot show ?thesis by simp
  qed
  with w' row show ?thesis by blast
qed

theorem counters_within_total_after_one_job_witness:
  "\<exists>e'. executions (snd (execute_test_suite_async final_snapshot_fails_env 7 ''job''
            three_case_world)) 7 = Some e'
     \<and> counted_tests e' \<le> total_tests e'
     \<and> (total_tests e' = total_tests (example_execution QUEUED)
         \<or> total_tests e' =
            int (length (get_test_cases_for_execution three_case_world
                   (example_execution QUEUED))))"
proof -
  have h: "executions three_case_world 7 = Some (example_execution QUEUED)"
    "exec_id (example_execution QUEUED) = 7" "results_of 7 three_case_world = []"
    "counted_tests (example_execution QUEUED) = 0" "0 \<le> total_tests (example_execution QUEUED)"
    by (simp_all add: scenario_defs results_of_def counted_tests_def)
  show ?thesis
    by (rule counters_within_total_after_one_job [OF h])
qed

text \<open>
  C5, as stated, fails. After a second complete job for the same execution the counters
  account for 6 results while \<open>total_tests\<close> is 3.
\<close>

theorem counter_invariant_counterexample:
  "map_option counted_tests (executions after_one_run 7) = Some 3
   \<and> map_option total_tests (executions after_one_run 7) = Some 3
   \<and> map_option counted_tests (executions after_two_runs 7) = Some 6
   \<and> map_option total_tests (executions after_two_runs 7) = Some 3"
  by (simp add: after_two_runs_def after_one_run_def model_defs scenario_defs str_nat_7)

subsection \<open>The empty target set\<close>

text \<open>
  C6, as the code has it. When the target set is empty and the first cache write does not
  raise, the job returns \<open>{"success": True, "total_tests": 0}\<close>. The row it leaves is the
  row from before the job with \<open>started_at\<close> and \<open>celery_task_id\<close> set by the entry,
  \<open>status\<close> COMPLETED, \<open>completed_at\<close> set and \<open>total_tests = 0\<close>: every other field, the
  five counters among them, is as it was, and so is \<open>pass_rate\<close>, which is 0 when
  \<open>passed_tests + failed_tests\<close> was 0. No other row of the table of executions changes,
  no result is created, nothing is written to the log store and nothing is printed.
\<close>

theorem empty_target_set:
  assumes ex: "executions w eid = Some e" and id: "exec_id e = eid"
    and quiet: "cache_raises ev AtRunning = None"
    and empty: "get_test_cases_for_execution w e = []"
  shows "\<exists>e' w'.
      execute_test_suite_async ev eid task_id w =
        (Inr [(''success'', JBool True), (''total_tests'', JInt 0)], w')
    \<and> executions w' = (executions w)(eid \<mapsto> e')
    \<and> e' = e\<lparr>started_at := Some (clock w), celery_task_id := Some task_id,
             status := COMPLETED, completed_at := Some (Suc (clock w)), total_tests := 0\<rparr>
    \<and> status e' = COMPLETED
    \<and> total_tests e' = 0
    \<and> completed_at e' = Some (Suc (clock w))
    \<and> passed_tests e' = passed_tests e
    \<and> failed_tests e' = failed_tests e
    \<and> skipped_tests e' = skipped_tests e
    \<and> blocked_tests e' = blocked_tests e
    \<and> error_tests e' = error_tests e
    \<and> duration_seconds e' = duration_seconds e
    \<and> error_message e' = error_message e
    \<and> pass_rate e' = pass_rate e
    \<and> (passed_tests e + failed_tests e = 0 \<longrightarrow> pass_rate e' = Inr 0)
    \<and> results w' = results w
    \<and> test_cases w' = test_cases w
    \<and> execution_logs w' = execution_logs w
    \<and> stdout w' = stdout w"
proof -
  define e' where "e' = e\<lparr>started_at := Some (clock w), celery_task_id := Some task_id,
            status := COMPLETED, completed_at := Some (Suc (clock w)),
            total_tests := 0\<rparr>"
  define w' where "w' = w\<lparr>cache := (cache w)(execution_status (str_nat eid) \<mapsto>
          [(''status'', JStr ''running''), (''started_at'', JIso (clock w)),
           (''progress'', JInt 0)]),
        clock := Suc (Suc (clock w)),
        executions := (executions w)(eid \<mapsto> e')\<rparr>"
  have run: "execute_test_suite_async ev eid task_id w =
      (Inr [(''success'', JBool True), (''total_tests'', JInt 0)], w')"
    unfolding w'_def e'_def by (rule run_quiet_empty [OF ex id quiet empty])
  have world: "executions w' = (executions w)(eid \<mapsto> e')" "results w' = results w"
    "test_cases w' = test_cases w" "execution_logs w' = execution_logs w"
    "stdout w' = stdout w"
    by (simp_all add: w'_def)
  have row: "status e' = COMPLETED" "total_tests e' = 0"
    "completed_at e' = Some (Suc (clock w))"
    "passed_tests e' = passed_tests e" "failed_tests e' = failed_tests e"
    "skipped_tests e' = skipped_tests e" "blocked_tests e' = blocked_tests e"
    "error_tests e' = error_tests e" "duration_seconds e' = duration_seconds e"
    "error_message e' = error_message e"
    by (simp_all add: e'_def)
  have rate: "pass_rate e' = pass_rate e"
    by (simp add: pass_rate_value e'_def)
  have zero: "passed_tests e + failed_tests e = 0 \<longrightarrow> pass_rate e' = Inr 0"
    by (simp add: pass_rate_value e'_def)
  from run world e'_def row rate zero show ?thesis
    by (intro exI [of _ e'] exI [of _ w']) simp
qed

text \<open>
  On \<open>archived_world\<close>, where the row holds the counters of an earlier run, and on
  \<open>empty_world\<close>, where the execution is new.
\<close>

theorem empty_target_set_witness:
  "(\<exists>e' w'.
      execute_test_suite_async passing_env 7 ''job-2'' archived_world =
        (Inr [(''success'', JBool True), (''total_tests'', JInt 0)], w')
    \<and> executions w' 7 = Some e'
    \<and> e' = archived_execution\<lparr>started_at := Some 100, celery_task_id := Some ''job-2'',
             status := COMPLETED, completed_at := Some 101, total_tests := 0\<rparr>
    \<and> passed_tests e' = 2 \<and> failed_tests e' = 1 \<and> skipped_tests e' = 1
    \<and> blocked_tests e' = 1 \<and> error_tests e' = 1
    \<and> pass_rate e' = Inr (to_double (6667 / 100))
    \<and> results w' = results archived_world
    \<and> execution_logs w' = [])
   \<and> (\<exists>e' w'.
      execute_test_suite_async passing_env 7 ''job'' empty_world =
        (Inr [(''success'', JBool True), (''total_tests'', JInt 0)], w')
    \<and> executions w' 7 = Some e'
    \<and> status e' = COMPLETED
    \<and> total_tests e' = 0
    \<and> results w' = []
    \<and> execution_logs w' = []
    \<and> pass_rate e' = Inr 0)"
proof (rule conjI)
  have h: "executions archived_world 7 = Some archived_execution"
    "exec_id archived_execution = 7" "cache_raises passing_env AtRunning = None"
    "get_test_cases_for_execution archived_world archived_execution = []"
    by (simp_all add: scenario_defs get_test_cases_for_execution_def project_rows_def)
  have before: "execution_logs archived_world = []" "clock archived_world = 100"
    "passed_tests archived_execution = 2" "failed_tests archived_execution = 1"
    "skipped_tests archived_execution = 1" "blocked_tests archived_execution = 1"
    "error_tests archived_execution = 1"
    by (simp_all add: scenario_defs)
  have rate: "pass_rate archived_execution = Inr (to_double (6667 / 100))"
    by (simp add: pass_rate_value archived_execution_def rate_2_of_3)
  from empty_target_set [OF h, of "''job-2''"]
  show "\<exists>e' w'.
      execute_test_suite_async passing_env 7 ''job-2'' archived_world =
        (Inr [(''success'', JBool True), (''total_tests'', JInt 0)], w')
    \<and> executions w' 7 = Some e'
    \<and> e' = archived_execution\<lparr>started_at := Some 100, celery_task_id := Some ''job-2'',
             status := COMPLETED, completed_at := Some 101, total_tests := 0\<rparr>
    \<and> passed_tests e' = 2 \<and> failed_tests e' = 1 \<and> skipped_tests e' = 1
    \<and> blocked_tests e' = 1 \<and> error_tests e' = 1
    \<and> pass_rate e' = Inr (to_double (6667 / 100))
    \<and> results w' = results archived_world
    \<and> execution_logs w' = []"
    unfolding before rate by auto
next
  have h: "executions empty_world 7 = Some (example_execution QUEUED)"
    "exec_id (example_execution QUEUED) = 7" "cache_raises passing_env AtRunning = None"
    "get_test_cases_for_execution empty_world (example_execution QUEUED) = []"
    by (simp_all add: scenario_defs get_test_cases_for_execution_def project_rows_def)
  have before: "results empty_world = []" "execution_logs empty_world = []"
    "passed_tests (example_execution QUEUED) + failed_tests (example_execution QUEUED) = 0"
    by (simp_all add: scenario_defs)
  from empty_target_set [OF h, of "''job''"]
  show "\<exists>e' w'.
      execute_test_suite_async passing_env 7 ''job'' empty_world =
        (Inr [(''success'', JBool True), (''total_tests'', JInt 0)], w')
    \<and> executions w' 7 = Some e'
    \<and> status e' = COMPLETED
    \<and> total_tests e' = 0
    \<and> results w' = []
    \<and> execution_logs w' = []
    \<and> pass_rate e' = Inr 0"
    unfolding before by auto
qed

text \<open>
  C6, as stated, fails: for the execution of \<open>empty_world\<close>, whose target set is empty,
  the job returns and the log store holds no entry afterwards, not one.
\<close>

theorem empty_target_set_counterexample:
  "get_test_cases_for_execution empty_world (example_execution QUEUED) = []
   \<and> fst (execute_test_suite_async passing_env 7 ''job'' empty_world) =
       Inr [(''success'', JBool True), (''total_tests'', JInt 0)]
   \<and> execution_logs (snd (execute_test_suite_async passing_env 7 ''job'' empty_world)) = []"
  by (simp add: model_defs scenario_defs str_nat_7)

subsection \<open>Failures of the cache and of the log store\<close>

text \<open>
  C4. A log store that raises is swallowed: the job on \<open>three_case_world\<close> returns, the
  row stays COMPLETED and the failure is printed. A cache that raises at the final snapshot
  is not: the job raises, and the row that had been committed as COMPLETED with its
  counters is committed again as FAILED, with the message of the cache error; no log entry
  is written.
\<close>

theorem final_snapshot_failure_marks_failed:
  "fst (execute_test_suite_async log_store_down_env 7 ''job'' three_case_world) =
     Inr [(''success'', JBool True), (''execution_id'', JInt 7), (''total_tests'', JInt 3),
          (''passed'', JInt 2), (''failed'', JInt 1), (''duration'', JInt 7)]
   \<and> map_option status
        (executions (snd (execute_test_suite_async log_store_down_env 7 ''job''
           three_case_world)) 7) = Some COMPLETED
   \<and> stdout (snd (execute_test_suite_async log_store_down_env 7 ''job'' three_case_world)) =
       [''Failed to store execution logs: MongoDB is not connected. Call connect() first.'']
   \<and> fst (execute_test_suite_async final_snapshot_fails_env 7 ''job'' three_case_world) =
       Inl ''connection lost''
   \<and> map_option status
        (executions (snd (execute_test_suite_async final_snapshot_fails_env 7 ''job''
           three_case_world)) 7) = Some FAILED
   \<and> map_option error_message
        (executions (snd (execute_test_suite_async final_snapshot_fails_env 7 ''job''
           three_case_world)) 7) = Some (Some ''connection lost'')
   \<and> map_option passed_tests
        (executions (snd (execute_test_suite_async final_snapshot_fails_env 7 ''job''
           three_case_world)) 7) = Some 2
   \<and> map r_status
        (results (snd (execute_test_suite_async final_snapshot_fails_env 7 ''job''
           three_case_world))) = [R_PASSED, R_PASSED, R_FAILED]
   \<and> execution_logs (snd (execute_test_suite_async final_snapshot_fails_env 7 ''job''
        three_case_world)) = []"
  by (simp add: model_defs scenario_defs str_nat_7)

subsection \<open>Cancellation during the loop\<close>

text \<open>
  C3, as the code has it. The cancellation task creates and changes no result. The loop
  does not read the status of the execution: run against a world in which the execution is
  CANCELLED, with progress writes that do not raise, it goes through all the test cases it
  is given, adds one PASSED, FAILED or ERROR result for each of them, none SKIPPED, and
  leaves the row CANCELLED.
\<close>

theorem loop_ignores_cancellation:
  assumes cancelled: "executions w eid = Some e" "status e = CANCELLED"
    and own: "exec_id ex = eid"
    and quiet: "\<forall>i. cache_raises ev (AtProgress i) = None"
  shows "results (snd (cancel_execution_async ev' eid w0)) = results w0
    \<and> (\<exists>rows w'. run_tests ev ex n idx tcs acc w = Inr (acc @ rows, w')
        \<and> results w' = results w @ rows
        \<and> map test_case_id rows = map tc_id tcs
        \<and> (\<forall>r\<in>set rows. execution_id r = eid
              \<and> r_status r \<in> {R_PASSED, R_FAILED, R_ERROR})
        \<and> executions w' eid = Some e)"
proof
  show "results (snd (cancel_execution_async ev' eid w0)) = results w0"
    by (simp add: cancel_execution_async_def delete_def commit_def tick_def Let_def
          split: option.splits)
next
  from quiet have q: "\<And>i. cache_raises ev (AtProgress i) = None"
    by simp
  from run_tests_quiet [where ev = ev and ex = ex and n = n and idx = idx and tcs = tcs
      and acc = acc and w = w, OF q]
  obtain rows w' where
    loop: "run_tests ev ex n idx tcs acc w = Inr (acc @ rows, w')"
    and res: "results w' = results w @ rows"
    and len: "length rows = length tcs"
    and each: "\<forall>k<length tcs.
           execution_id (rows ! k) = exec_id ex
         \<and> test_case_id (rows ! k) = tc_id (tcs ! k)
         \<and> r_status (rows ! k) =
             (case unit_of_work ev (idx + k) of
                Ran passed \<Rightarrow> if passed then R_PASSED else R_FAILED
              | Raises m \<Rightarrow> R_ERROR)
         \<and> r_error_message (rows ! k) =
             (case unit_of_work ev (idx + k) of
                Ran passed \<Rightarrow> if passed then None else Some ''Test assertion failed''
              | Raises m \<Rightarrow> Some m)
         \<and> r_completed_at (rows ! k) \<noteq> None
         \<and> r_duration_seconds (rows ! k) \<noteq> None"
    and exs: "executions w' = executions w"
    by blast
  from each have ids: "\<forall>k<length tcs. test_case_id (rows ! k) = tc_id (tcs ! k)"
    by blast
  have order: "map test_case_id rows = map tc_id tcs"
    by (rule rows_follow_target [OF len ids])
  have all: "\<forall>r\<in>set rows. execution_id r = eid
              \<and> r_status r \<in> {R_PASSED, R_FAILED, R_ERROR}"
  proof
    fix r assume "r \<in> set rows"
    then obtain k where "k < length tcs" and "r = rows ! k"
      using len by (auto simp: in_set_conv_nth)
    with each own show "execution_id r = eid
              \<and> r_status r \<in> {R_PASSED, R_FAILED, R_ERROR}"
      by (auto split: test_outcome.splits)
  qed
  have "executions w' eid = Some e"
    using cancelled exs by simp
  with loop res order all
  show "\<exists>rows w'. run_tests ev ex n idx tcs acc w = Inr (acc @ rows, w')
        \<and> results w' = results w @ rows
        \<and> map test_case_id rows = map tc_id tcs
        \<and> (\<forall>r\<in>set rows. execution_id r = eid
              \<and> r_status r \<in> {R_PASSED, R_FAILED, R_ERROR})
        \<and> executions w' eid = Some e"
    by blast
qed

theorem loop_ignores_cancellation_witness:
  "results (snd (cancel_execution_async passing_env 7 two_case_world)) = results two_case_world
   \<and> (\<exists>rows w'.
        run_tests passing_env (example_execution RUNNING) 2 0
          [example_test_case 10, example_test_case 11] []
          (example_world CANCELLED [example_test_case 10, example_test_case 11] [])
          = Inr ([] @ rows, w')
      \<and> results w' =
          results (example_world CANCELLED [example_test_case 10, example_test_case 11] [])
          @ rows
      \<and> map test_case_id rows = map tc_id [example_test_case 10, example_test_case 11]
      \<and> (\<forall>r\<in>set rows. execution_id r = 7
            \<and> r_status r \<in> {R_PASSED, R_FAILED, R_ERROR})
      \<and> executions w' 7 = Some (example_execution CANCELLED))"
proof -
  have h: "executions (example_world CANCELLED [example_test_case 10, example_test_case 11] [])
      7 = Some (example_execution CANCELLED)"
    "status (example_execution CANCELLED) = CANCELLED"
    "exec_id (example_execution RUNNING) = 7"
    "\<forall>i. cache_raises passing_env (AtProgress i) = None"
    by (simp_all add: scenario_defs)
  show ?thesis
    by (rule loop_ignores_cancellation [OF h])
qed

text \<open>
  The scenario is cut out of a job: \<open>loop_execution\<close> and \<open>loop_world\<close> are the state in
  which the job on \<open>two_case_world\<close> enters its loop, and the loop over both test cases is
  its first iteration followed by the loop over the second test case from index 1.
\<close>

lemma cancel_scenario_is_the_job:
  "execute_test_suite_async passing_env 7 ''job'' two_case_world =
     (case run_tests passing_env loop_execution 2 0
             [example_test_case 10, example_test_case 11] [] loop_world of
        Inl (m, w) \<Rightarrow> except_handler passing_env m loop_execution w
      | Inr (rs, w) \<Rightarrow>
          (case complete_execution passing_env loop_execution rs w of
             Inl (m, e, w') \<Rightarrow> except_handler passing_env m e w'
           | Inr (ret, w') \<Rightarrow> (Inr ret, w')))"
  "run_tests passing_env loop_execution 2 0
     [example_test_case 10, example_test_case 11] [] loop_world =
   run_tests passing_env loop_execution 2 1 [example_test_case 11]
     (fst (projr first_iteration)) (snd (projr first_iteration))"
  by (simp_all add: first_iteration_def loop_world_def loop_execution_def model_defs
        scenario_defs str_nat_7)

text \<open>
  C3, as stated, fails. After the first iteration the cancellation task sets the execution
  to CANCELLED; the table then holds one result. The second iteration of the loop still
  runs: it creates a result for test case 11 with status PASSED, not SKIPPED.
\<close>

theorem cancellation_monotonicity_counterexample:
  "map_option status (executions cancelled_world 7) = Some CANCELLED
   \<and> map test_case_id (results cancelled_world) = [10]
   \<and> \<not> isl second_iteration
   \<and> map test_case_id (results (snd (projr second_iteration))) = [10, 11]
   \<and> map r_status (results (snd (projr second_iteration))) = [R_PASSED, R_PASSED]
   \<and> map_option status (executions (snd (projr second_iteration)) 7) = Some CANCELLED"
  by (simp add: second_iteration_def cancelled_world_def first_iteration_def loop_world_def
        loop_execution_def model_defs scenario_defs str_nat_7)

end
